theory Spec2Isabelle
  imports Main "HOL-Library.Word"
begin

section \<open>Go error values\<close>

text \<open>
  A Go \<open>error\<close> of this code base is a sentinel made by \<open>errors.New\<close>, an error wrapped
  by \<open>fmt.Errorf("<prefix>: %w", err)\<close>, an error that \<open>fmt.Errorf\<close> made from several
  \<open>%w\<close> operands (it carries its formatted text and the errors it wraps), or the token
  library's join of the errors of a failed claim validation. Sentinels are compared by
  identity in Go; every sentinel of the program and of its libraries has its own message, so
  a sentinel is identified here by its message.
\<close>

datatype go_error =
    ErrorNew string
  | Wrap string go_error
  | Errorf string "go_error list"
  | Joined "go_error list"

text \<open>\<open>strings.Join(elems, sep)\<close>.\<close>

fun strings_Join :: "string list \<Rightarrow> string \<Rightarrow> string" where
  "strings_Join [] sep = []"
| "strings_Join [x] sep = x"
| "strings_Join (x # y # ys) sep = x @ sep @ strings_Join (y # ys) sep"

text \<open>\<open>err.Error()\<close>: the message of an error. A joined error lists the messages of its
  parts, separated by a comma and a space.\<close>

fun Error :: "go_error \<Rightarrow> string" where
  "Error (ErrorNew m) = m"
| "Error (Wrap p e) = p @ '': '' @ Error e"
| "Error (Errorf m es) = m"
| "Error (Joined es) = strings_Join (map (\<lambda>e. Error e) es) '', ''"

text \<open>\<open>errors.Is(err, target)\<close>: \<open>target\<close> occurs in the chain (or tree) of \<open>err\<close>.\<close>

fun errors_Is :: "go_error \<Rightarrow> go_error \<Rightarrow> bool" where
  "errors_Is (ErrorNew m) t = (ErrorNew m = t)"
| "errors_Is (Wrap p e) t = (Wrap p e = t \<or> errors_Is e t)"
| "errors_Is (Errorf m es) t = (Errorf m es = t \<or> list_ex (\<lambda>e. errors_Is e t) es)"
| "errors_Is (Joined es) t = (Joined es = t \<or> list_ex (\<lambda>e. errors_Is e t) es)"

section \<open>Package password (pkg/password/hash.go)\<close>

definition ErrHashingFailed :: go_error where
  "ErrHashingFailed = ErrorNew ''password hashing failed''"

definition ErrVerificationFailed :: go_error where
  "ErrVerificationFailed = ErrorNew ''password verification failed''"

definition ErrInvalidPassword :: go_error where
  "ErrInvalidPassword = ErrorNew ''invalid password''"

definition DefaultCost :: int where "DefaultCost = 12"
definition MinPasswordLength :: nat where "MinPasswordLength = 8"
definition MaxPasswordLength :: nat where "MaxPasswordLength = 128"

text \<open>
  The bcrypt library (golang.org/x/crypto/bcrypt) is not part of the repository. The two
  functions the package calls are taken as a parameter: \<open>GenerateFromPassword\<close> gets the
  password, the cost and the random bytes it draws for the salt; \<open>CompareHashAndPassword\<close>
  gets the stored hash and the password and returns \<open>None\<close> for Go's \<open>nil\<close>.
\<close>

record bcrypt_pkg =
  GenerateFromPassword :: "string \<Rightarrow> int \<Rightarrow> string \<Rightarrow> go_error + string"
  CompareHashAndPassword :: "string \<Rightarrow> string \<Rightarrow> go_error option"

definition bcrypt_MinCost :: int where "bcrypt_MinCost = 4"
definition bcrypt_MaxCost :: int where "bcrypt_MaxCost = 31"

definition bcrypt_ErrMismatchedHashAndPassword :: go_error where
  "bcrypt_ErrMismatchedHashAndPassword =
     ErrorNew ''crypto/bcrypt: hashedPassword is not the hash of the given password''"

definition bcrypt_ErrPasswordTooLong :: go_error where
  "bcrypt_ErrPasswordTooLong = ErrorNew ''bcrypt: password length exceeds 72 bytes''"

record Hasher =
  cost :: int

definition NewHasher :: Hasher where
  "NewHasher = \<lparr>cost = DefaultCost\<rparr>"

definition NewHasherWithCost :: "int \<Rightarrow> Hasher" where
  "NewHasherWithCost c =
     (if c < bcrypt_MinCost then \<lparr>cost = bcrypt_MinCost\<rparr>
      else if c > bcrypt_MaxCost then \<lparr>cost = bcrypt_MaxCost\<rparr>
      else \<lparr>cost = c\<rparr>)"

text \<open>\<open>len(password)\<close> counts the bytes of a Go string, as \<open>length\<close> does on a \<open>string\<close>.\<close>

definition HashPassword :: "bcrypt_pkg \<Rightarrow> Hasher \<Rightarrow> string \<Rightarrow> string \<Rightarrow> go_error + string" where
  "HashPassword lib h password rnd =
     (if length password < MinPasswordLength then Inl ErrInvalidPassword
      else if length password > MaxPasswordLength then Inl ErrInvalidPassword
      else (case GenerateFromPassword lib password (cost h) rnd of
              Inl err \<Rightarrow> Inl ErrHashingFailed
            | Inr hashedBytes \<Rightarrow> Inr hashedBytes))"

definition VerifyPassword :: "bcrypt_pkg \<Rightarrow> Hasher \<Rightarrow> string \<Rightarrow> string \<Rightarrow> go_error option" where
  "VerifyPassword lib h hashedPassword password =
     (if length password < MinPasswordLength then Some ErrInvalidPassword
      else if length password > MaxPasswordLength then Some ErrInvalidPassword
      else (case CompareHashAndPassword lib hashedPassword password of
              Some err \<Rightarrow>
                (if errors_Is err bcrypt_ErrMismatchedHashAndPassword
                 then Some ErrVerificationFailed
                 else Some ErrVerificationFailed)
            | None \<Rightarrow> None))"

definition ValidatePasswordStrength :: "string \<Rightarrow> go_error option" where
  "ValidatePasswordStrength password =
     (if length password < MinPasswordLength then Some ErrInvalidPassword
      else if length password > MaxPasswordLength then Some ErrInvalidPassword
      else None)"

text \<open>
  The number of characters of a UTF-8 encoded string (what \<open>utf8.RuneCountInString\<close>
  gives for it): its bytes other than the continuation bytes \<open>10xxxxxx\<close>. The package
  never counts characters; this is for comparing its byte lengths with them.
\<close>

definition utf8_characters :: "string \<Rightarrow> nat" where
  "utf8_characters s =
     length (filter (\<lambda>c. \<not> (128 \<le> (of_char c :: nat) \<and> (of_char c :: nat) < 192)) s)"

text \<open>
  A stand-in for the library, used only to instantiate statements at concrete inputs: the
  "hash" is the password behind a fixed prefix, and, as the library does, hashing refuses a
  password of more than 72 bytes.
\<close>

definition toy_bcrypt :: bcrypt_pkg where
  "toy_bcrypt =
     \<lparr>GenerateFromPassword = (\<lambda>password c rnd.
         if length password > 72 then Inl bcrypt_ErrPasswordTooLong
         else Inr (''$2a$'' @ password)),
      CompareHashAndPassword = (\<lambda>hashedPassword password.
         if hashedPassword = ''$2a$'' @ take 72 password then None
         else Some bcrypt_ErrMismatchedHashAndPassword)\<rparr>"

text \<open>The password \<open>U+00E4 U+00E4 U+00E4 U+00E4\<close> (four times a-umlaut) in UTF-8: four
  characters, eight bytes.\<close>

definition four_umlauts :: string where
  "four_umlauts = [CHR 0xC3, CHR 0xA4, CHR 0xC3, CHR 0xA4, CHR 0xC3, CHR 0xA4, CHR 0xC3, CHR 0xA4]"

section \<open>Data model (internal/model)\<close>

text \<open>
  Go's \<open>uint\<close> is a 64-bit word on the platforms the server is built for; \<open>time.Time\<close> is
  a count of nanoseconds. \<open>User\<close> and \<open>Todo\<close> both have fields \<open>ID\<close>, \<open>CreatedAt\<close> and
  \<open>UpdatedAt\<close>; the record fields carry the struct's name to keep them apart. The
  association fields (\<open>User.Todos\<close>, \<open>Todo.User\<close>) are never loaded or read by the code
  and are left out.
\<close>

type_synonym uint = "64 word"
type_synonym time = int

record User =
  User_ID :: uint
  User_Email :: string
  User_Password :: string
  User_CreatedAt :: time
  User_UpdatedAt :: time

record Todo =
  Todo_ID :: uint
  Title :: string
  Description :: string
  Completed :: bool
  UserID :: uint
  Todo_CreatedAt :: time
  Todo_UpdatedAt :: time

record UserInfo =
  Info_ID :: uint
  Info_Email :: string
  Info_CreatedAt :: time
  Info_UpdatedAt :: time

definition ToUserInfo :: "User \<Rightarrow> UserInfo" where
  "ToUserInfo u =
     \<lparr>Info_ID = User_ID u, Info_Email = User_Email u,
      Info_CreatedAt = User_CreatedAt u, Info_UpdatedAt = User_UpdatedAt u\<rparr>"

record RegisterRequest =
  Register_Email :: string
  Register_Password :: string

record LoginRequest =
  Login_Email :: string
  Login_Password :: string

record CreateTodoRequest =
  Create_Title :: string
  Create_Description :: string


record AuthResponse =
  Token :: string
  Auth_User :: UserInfo

section \<open>Repositories (internal/repository)\<close>

definition gorm_ErrRecordNotFound :: go_error where
  "gorm_ErrRecordNotFound = ErrorNew ''record not found''"

text \<open>
  The services are written against the interfaces \<open>UserRepository\<close> and \<open>TodoRepository\<close>
  (the listing method \<open>GetByUserID\<close> of the latter and the service method on top of it are
  left out). An implementation works on a store of type \<open>'s\<close>: each method takes the store and
  returns its result with the store it leaves. A method returning \<open>(*T, error)\<close> returns
  either the value or the error; a method that fills in the struct it is given (\<open>Create\<close>,
  \<open>Update\<close>) returns the struct as the caller's pointer sees it afterwards.
\<close>

record 's UserRepository =
  user_Create :: "User \<Rightarrow> 's \<Rightarrow> (go_error + User) \<times> 's"
  user_GetByEmail :: "string \<Rightarrow> 's \<Rightarrow> (go_error + User) \<times> 's"
  user_GetByID :: "uint \<Rightarrow> 's \<Rightarrow> (go_error + User) \<times> 's"

record 's TodoRepository =
  todo_Create :: "Todo \<Rightarrow> 's \<Rightarrow> (go_error + Todo) \<times> 's"
  todo_GetByID :: "uint \<Rightarrow> uint \<Rightarrow> 's \<Rightarrow> (go_error + Todo) \<times> 's"
  todo_Update :: "Todo \<Rightarrow> 's \<Rightarrow> (go_error + Todo) \<times> 's"
  todo_Delete :: "uint \<Rightarrow> uint \<Rightarrow> 's \<Rightarrow> go_error option \<times> 's"

subsection \<open>The relational store behind the GORM implementations\<close>

text \<open>
  The tables are lists of rows; a query for one row takes the first that matches (under
  the primary key and the unique index at most one does). \<open>db_fault\<close> is a failure of the
  connection or the driver: while it is set, every statement returns it and changes nothing.
  \<open>clock\<close> is the time GORM stamps rows with, \<open>user_seq\<close> and \<open>todo_seq\<close> are the
  sequences behind the serial primary keys. \<open>unique_violation\<close> is the error the database
  driver reports for an insert that violates a unique index; GORM hands it on as it is.
\<close>

record DB =
  users :: "User list"
  todos :: "Todo list"
  db_fault :: "go_error option"
  clock :: time
  user_seq :: uint
  todo_seq :: uint
  unique_violation :: go_error

text \<open>\<open>userRepository\<close>. The \<open>users\<close> table has a unique index on \<open>email\<close>.\<close>

definition userRepository_Create :: "User \<Rightarrow> DB \<Rightarrow> (go_error + User) \<times> DB" where
  "userRepository_Create user db =
     (case db_fault db of
        Some err \<Rightarrow> (Inl err, db)
      | None \<Rightarrow>
          if list_ex (\<lambda>u. User_Email u = User_Email user) (users db)
          then (Inl (unique_violation db), db)
          else
            (let user' = user\<lparr>User_ID := user_seq db + 1,
                                User_CreatedAt := clock db, User_UpdatedAt := clock db\<rparr>
             in (Inr user', db\<lparr>users := users db @ [user'], user_seq := user_seq db + 1\<rparr>)))"

definition userRepository_GetByEmail :: "string \<Rightarrow> DB \<Rightarrow> (go_error + User) \<times> DB" where
  "userRepository_GetByEmail email db =
     (case db_fault db of
        Some err \<Rightarrow> (Inl err, db)
      | None \<Rightarrow>
          (case find (\<lambda>u. User_Email u = email) (users db) of
             None \<Rightarrow> (Inl gorm_ErrRecordNotFound, db)
           | Some user \<Rightarrow> (Inr user, db)))"

definition userRepository_GetByID :: "uint \<Rightarrow> DB \<Rightarrow> (go_error + User) \<times> DB" where
  "userRepository_GetByID uid db =
     (case db_fault db of
        Some err \<Rightarrow> (Inl err, db)
      | None \<Rightarrow>
          (case find (\<lambda>u. User_ID u = uid) (users db) of
             None \<Rightarrow> (Inl gorm_ErrRecordNotFound, db)
           | Some user \<Rightarrow> (Inr user, db)))"

definition NewUserRepository :: "DB UserRepository" where
  "NewUserRepository =
     \<lparr>user_Create = userRepository_Create,
      user_GetByEmail = userRepository_GetByEmail,
      user_GetByID = userRepository_GetByID\<rparr>"

text \<open>\<open>todoRepository\<close>. Every query on one todo is scoped by id and owner.\<close>

definition todoRepository_Create :: "Todo \<Rightarrow> DB \<Rightarrow> (go_error + Todo) \<times> DB" where
  "todoRepository_Create todo db =
     (case db_fault db of
        Some err \<Rightarrow> (Inl err, db)
      | None \<Rightarrow>
          (let todo' = todo\<lparr>Todo_ID := todo_seq db + 1,
                              Todo_CreatedAt := clock db, Todo_UpdatedAt := clock db\<rparr>
           in (Inr todo', db\<lparr>todos := todos db @ [todo'], todo_seq := todo_seq db + 1\<rparr>)))"

definition todoRepository_GetByID :: "uint \<Rightarrow> uint \<Rightarrow> DB \<Rightarrow> (go_error + Todo) \<times> DB" where
  "todoRepository_GetByID tid userID db =
     (case db_fault db of
        Some err \<Rightarrow> (Inl err, db)
      | None \<Rightarrow>
          (case find (\<lambda>t. Todo_ID t = tid \<and> UserID t = userID) (todos db) of
             None \<Rightarrow> (Inl gorm_ErrRecordNotFound, db)
           | Some todo \<Rightarrow> (Inr todo, db)))"

text \<open>
  \<open>Save\<close> writes every column of the row that has the todo's primary key and stamps
  \<open>updated_at\<close>. When no row has the key it inserts the todo: with a key from the
  sequence when the todo's key is zero, with the todo's key otherwise, stamping the creation
  time if the todo has none. (The keys of stored rows come from the sequence, which starts
  at 1; a stored row with the key 0 is treated like any other row.)
\<close>

definition todoRepository_Update :: "Todo \<Rightarrow> DB \<Rightarrow> (go_error + Todo) \<times> DB" where
  "todoRepository_Update todo db =
     (case db_fault db of
        Some err \<Rightarrow> (Inl err, db)
      | None \<Rightarrow>
          if list_ex (\<lambda>t. Todo_ID t = Todo_ID todo) (todos db)
          then
            (let todo' = todo\<lparr>Todo_UpdatedAt := clock db\<rparr>
             in (Inr todo',
                 db\<lparr>todos := map (\<lambda>t. if Todo_ID t = Todo_ID todo then todo' else t) (todos db)\<rparr>))
          else if Todo_ID todo = 0
          then todoRepository_Create todo db
          else
            (let todo' = todo\<lparr>Todo_CreatedAt := (if Todo_CreatedAt todo = 0 then clock db
                                                   else Todo_CreatedAt todo),
                                Todo_UpdatedAt := clock db\<rparr>
             in (Inr todo', db\<lparr>todos := todos db @ [todo']\<rparr>)))"

definition todoRepository_Delete :: "uint \<Rightarrow> uint \<Rightarrow> DB \<Rightarrow> go_error option \<times> DB" where
  "todoRepository_Delete tid userID db =
     (case db_fault db of
        Some err \<Rightarrow> (Some err, db)
      | None \<Rightarrow>
          (let RowsAffected = length (filter (\<lambda>t. Todo_ID t = tid \<and> UserID t = userID) (todos db))
           in if RowsAffected = 0 then (Some gorm_ErrRecordNotFound, db)
              else (None,
                    db\<lparr>todos := filter (\<lambda>t. \<not> (Todo_ID t = tid \<and> UserID t = userID)) (todos db)\<rparr>)))"

definition NewTodoRepository :: "DB TodoRepository" where
  "NewTodoRepository =
     \<lparr>todo_Create = todoRepository_Create,
      todo_GetByID = todoRepository_GetByID,
      todo_Update = todoRepository_Update,
      todo_Delete = todoRepository_Delete\<rparr>"

section \<open>Package jwt (pkg/jwt)\<close>

definition ErrInvalidToken :: go_error where
  "ErrInvalidToken = ErrorNew ''invalid token''"

definition ErrExpiredToken :: go_error where
  "ErrExpiredToken = ErrorNew ''token has expired''"

definition ErrTokenClaims :: go_error where
  "ErrTokenClaims = ErrorNew ''invalid token claims''"

text \<open>\<open>Claims\<close> with the three registered claims the program sets; a date that is absent
  from the token is \<open>None\<close>.\<close>

record Claims =
  Claims_UserID :: uint
  Claims_Email :: string
  ExpiresAt :: "time option"
  IssuedAt :: "time option"
  NotBefore :: "time option"

text \<open>\<open>expiration\<close> is a \<open>time.Duration\<close>: a signed 64-bit count of nanoseconds, read by
  \<open>sint\<close>. \<open>time.Duration(expirationHours) * time.Hour\<close> is a product of 64-bit
  integers and wraps around.\<close>

record TokenManager =
  secretKey :: string
  expiration :: "64 word"

definition time_Second :: "64 word" where "time_Second = 1000000000"
definition time_Hour :: "64 word" where "time_Hour = 3600 * time_Second"

definition NewTokenManager :: "string \<Rightarrow> int \<Rightarrow> TokenManager" where
  "NewTokenManager key expirationHours =
     \<lparr>secretKey = key, expiration = word_of_int expirationHours * time_Hour\<rparr>"

subsection \<open>The token library (github.com/golang-jwt/jwt/v5)\<close>

text \<open>
  The library is not part of the repository. Its encoding and cryptographic primitives are
  a parameter: \<open>ParseUnverified\<close> splits and decodes a token string (it fails on a string
  that is not three base64url segments of JSON, on claims that do not fit \<open>Claims\<close> and on
  an unknown \<open>alg\<close>; the failure carries the text of its message), \<open>DecodeSegment\<close>
  decodes the signature segment and \<open>DecodeSegment_error\<close> is the text of the decoder's
  error for a segment that does not decode, \<open>hmac n\<close> is the HMAC with SHA-\<open>n\<close>,
  \<open>SigningString\<close> and \<open>EncodeSegment\<close> encode. The methods other than HMAC do not
  accept the program's key, a byte slice: \<open>Verify_other\<close> and \<open>Sign_other\<close> are the
  errors they return for it. What the library does with these in
  \<open>Parser.ParseWithClaims\<close>, \<open>Validator.Validate\<close>, \<open>SigningMethodHMAC.Verify\<close> and
  \<open>Token.SignedString\<close> is written out below, in the library's order: structure, key
  function, signature, and only then the claims. An error of the encoding packages that a
  library error wraps besides its own sentinel shows in the text of the error only.
\<close>

datatype SigningMethod = HMAC nat | RSA nat | RSAPSS nat | ECDSA nat | EdDSA | NoneMethod

fun SigningMethodHMAC :: "SigningMethod \<Rightarrow> bool" where
  "SigningMethodHMAC (HMAC n) = True"
| "SigningMethodHMAC m = False"

definition SigningMethodHS256 :: SigningMethod where
  "SigningMethodHS256 = HMAC 256"

record Token =
  Method :: SigningMethod
  Token_Claims :: Claims
  SigningInput :: string
  RawSignature :: string
  Valid :: bool

datatype unverified_failure = Malformed string | Unverifiable string

record jwt_pkg =
  ParseUnverified :: "string \<Rightarrow> unverified_failure + Token"
  DecodeSegment :: "string \<Rightarrow> string option"
  DecodeSegment_error :: "string \<Rightarrow> string"
  hmac :: "nat \<Rightarrow> string \<Rightarrow> string \<Rightarrow> string"
  Verify_other :: "SigningMethod \<Rightarrow> go_error"
  Sign_other :: "SigningMethod \<Rightarrow> go_error"
  SigningString :: "SigningMethod \<Rightarrow> Claims \<Rightarrow> string"
  EncodeSegment :: "string \<Rightarrow> string"

definition jwt_ErrTokenMalformed :: go_error where
  "jwt_ErrTokenMalformed = ErrorNew ''token is malformed''"
definition jwt_ErrTokenUnverifiable :: go_error where
  "jwt_ErrTokenUnverifiable = ErrorNew ''token is unverifiable''"
definition jwt_ErrTokenSignatureInvalid :: go_error where
  "jwt_ErrTokenSignatureInvalid = ErrorNew ''token signature is invalid''"
definition jwt_ErrTokenInvalidClaims :: go_error where
  "jwt_ErrTokenInvalidClaims = ErrorNew ''token has invalid claims''"
definition jwt_ErrTokenExpired :: go_error where
  "jwt_ErrTokenExpired = ErrorNew ''token is expired''"
definition jwt_ErrTokenNotValidYet :: go_error where
  "jwt_ErrTokenNotValidYet = ErrorNew ''token is not valid yet''"
definition jwt_ErrSignatureInvalid :: go_error where
  "jwt_ErrSignatureInvalid = ErrorNew ''signature is invalid''"

text \<open>The library's \<open>newError(message, err, more...)\<close>: \<open>fmt.Errorf\<close> with the format
  \<open>"%w: %s"\<close> (or \<open>"%w"\<close> when the message is empty) and one more \<open>": %w"\<close> for each
  further error.\<close>

definition jwt_newError :: "string \<Rightarrow> go_error \<Rightarrow> go_error list \<Rightarrow> go_error" where
  "jwt_newError message err others =
     Errorf (Error err @ (if message = [] then [] else '': '' @ message)
               @ concat (map (\<lambda>e. '': '' @ Error e) others))
            (err # others)"

text \<open>\<open>Method.Verify\<close> with a key that is a byte slice, as the program's key always is.\<close>

definition jwt_Verify :: "jwt_pkg \<Rightarrow> SigningMethod \<Rightarrow> string \<Rightarrow> string \<Rightarrow> string \<Rightarrow> go_error option" where
  "jwt_Verify lib m signingString sig key =
     (case m of
        HMAC n \<Rightarrow> if sig = hmac lib n key signingString then None
                  else Some jwt_ErrSignatureInvalid
      | _ \<Rightarrow> Some (Verify_other lib m))"

text \<open>\<open>Validator.Validate\<close> with the default options: expiry and not-before are checked
  when present, and all failures are joined.\<close>

definition jwt_Validate :: "time \<Rightarrow> Claims \<Rightarrow> go_error option" where
  "jwt_Validate now claims =
     (let errs =
        (case ExpiresAt claims of
           None \<Rightarrow> []
         | Some exp \<Rightarrow> if now < exp then [] else [jwt_ErrTokenExpired])
        @ (case NotBefore claims of
             None \<Rightarrow> []
           | Some nbf \<Rightarrow> if now < nbf then [jwt_ErrTokenNotValidYet] else [])
      in if errs = [] then None else Some (Joined errs))"

definition jwt_ParseWithClaims ::
  "jwt_pkg \<Rightarrow> time \<Rightarrow> string \<Rightarrow> (Token \<Rightarrow> go_error + string) \<Rightarrow> go_error + Token" where
  "jwt_ParseWithClaims lib now tokenString keyFunc =
     (case ParseUnverified lib tokenString of
        Inl (Malformed message) \<Rightarrow> Inl (jwt_newError message jwt_ErrTokenMalformed [])
      | Inl (Unverifiable message) \<Rightarrow> Inl (jwt_newError message jwt_ErrTokenUnverifiable [])
      | Inr token \<Rightarrow>
          (case keyFunc token of
             Inl err \<Rightarrow>
               Inl (jwt_newError ''error while executing keyfunc'' jwt_ErrTokenUnverifiable [err])
           | Inr key \<Rightarrow>
               (case DecodeSegment lib (RawSignature token) of
                  None \<Rightarrow>
                    Inl (jwt_newError
                           (''could not base64 decode signature: ''
                              @ DecodeSegment_error lib (RawSignature token))
                           jwt_ErrTokenMalformed [])
                | Some sig \<Rightarrow>
                    (case jwt_Verify lib (Method token) (SigningInput token) sig key of
                       Some err \<Rightarrow> Inl (jwt_newError [] jwt_ErrTokenSignatureInvalid [err])
                     | None \<Rightarrow>
                         (case jwt_Validate now (Token_Claims token) of
                            Some err \<Rightarrow> Inl (jwt_newError [] jwt_ErrTokenInvalidClaims [err])
                          | None \<Rightarrow> Inr (token\<lparr>Valid := True\<rparr>))))))"

text \<open>\<open>Token.SignedString\<close> with a byte-slice key.\<close>

definition jwt_SignedString :: "jwt_pkg \<Rightarrow> SigningMethod \<Rightarrow> Claims \<Rightarrow> string \<Rightarrow> go_error + string" where
  "jwt_SignedString lib m claims key =
     (case m of
        HMAC n \<Rightarrow>
          (let sstr = SigningString lib m claims
           in Inr (sstr @ ''.'' @ EncodeSegment lib (hmac lib n key sstr)))
      | _ \<Rightarrow> Inl (Sign_other lib m))"

subsection \<open>TokenManager\<close>

text \<open>\<open>jwt.NewNumericDate(t)\<close> truncates \<open>t\<close> to the library's time precision, one
  second.\<close>

definition jwt_NewNumericDate :: "time \<Rightarrow> time" where
  "jwt_NewNumericDate t = t - t mod 1000000000"

text \<open>\<open>now\<close> is the value of \<open>time.Now()\<close> at the call.\<close>

definition GenerateToken :: "jwt_pkg \<Rightarrow> TokenManager \<Rightarrow> time \<Rightarrow> uint \<Rightarrow> string \<Rightarrow> go_error + string" where
  "GenerateToken lib tm now userID email =
     (let claims = \<lparr>Claims_UserID = userID, Claims_Email = email,
                     ExpiresAt = Some (jwt_NewNumericDate (now + sint (expiration tm))),
                     IssuedAt = Some (jwt_NewNumericDate now),
                     NotBefore = Some (jwt_NewNumericDate now)\<rparr>
      in case jwt_SignedString lib SigningMethodHS256 claims (secretKey tm) of
           Inl err \<Rightarrow> Inl err
         | Inr tokenString \<Rightarrow> Inr tokenString)"

text \<open>The type assertion \<open>token.Claims.(*Claims)\<close> cannot fail, since the parser was given
  a \<open>*Claims\<close> to fill; it is the constant \<open>True\<close> below.\<close>

definition ValidateToken :: "jwt_pkg \<Rightarrow> TokenManager \<Rightarrow> time \<Rightarrow> string \<Rightarrow> go_error + Claims" where
  "ValidateToken lib tm now tokenString =
     (case jwt_ParseWithClaims lib now tokenString
             (\<lambda>token. if \<not> SigningMethodHMAC (Method token) then Inl ErrInvalidToken
                       else Inr (secretKey tm)) of
        Inl err \<Rightarrow>
          if errors_Is err jwt_ErrTokenExpired then Inl ErrExpiredToken
          else Inl ErrInvalidToken
      | Inr token \<Rightarrow>
          (let ok = True
           in if \<not> ok \<or> \<not> Valid token then Inl ErrTokenClaims
              else Inr (Token_Claims token)))"

section \<open>Services (internal/service)\<close>

definition ErrEmailAlreadyExists :: go_error where
  "ErrEmailAlreadyExists = ErrorNew ''email already exists''"

definition ErrInvalidCredentials :: go_error where
  "ErrInvalidCredentials = ErrorNew ''invalid email or password''"

definition ErrUserNotFound :: go_error where
  "ErrUserNotFound = ErrorNew ''user not found''"

definition ErrTodoNotFound :: go_error where
  "ErrTodoNotFound = ErrorNew ''todo not found''"

definition ErrUnauthorizedAccess :: go_error where
  "ErrUnauthorizedAccess = ErrorNew ''unauthorized access to todo''"

subsection \<open>authService\<close>

record 's authService =
  auth_userRepo :: "'s UserRepository"
  tokenManager :: TokenManager
  hasher :: Hasher

definition NewAuthService :: "'s UserRepository \<Rightarrow> TokenManager \<Rightarrow> 's authService" where
  "NewAuthService repo tm = \<lparr>auth_userRepo = repo, tokenManager = tm, hasher = NewHasher\<rparr>"

text \<open>
  \<open>Register\<close> and \<open>Login\<close> get, besides the request and the store, the two libraries, the
  time of the call and the random bytes bcrypt draws. In \<open>Register\<close> the lookup's result
  \<open>(existingUser, err)\<close> is a found user (\<open>err = nil\<close>) or an error (\<open>existingUser = nil\<close>).
\<close>

definition authService_Register ::
  "bcrypt_pkg \<Rightarrow> jwt_pkg \<Rightarrow> 's authService \<Rightarrow> time \<Rightarrow> string \<Rightarrow> RegisterRequest \<Rightarrow> 's
     \<Rightarrow> (go_error + AuthResponse) \<times> 's" where
  "authService_Register bc jw svc now rnd req s =
     (case user_GetByEmail (auth_userRepo svc) (Register_Email req) s of
        (Inr existingUser, s1) \<Rightarrow> (Inl ErrEmailAlreadyExists, s1)
      | (Inl err, s1) \<Rightarrow>
          if \<not> errors_Is err gorm_ErrRecordNotFound
          then (Inl (Wrap ''failed to check existing user'' err), s1)
          else
            (case ValidatePasswordStrength (Register_Password req) of
               Some err \<Rightarrow> (Inl (Wrap ''password validation failed'' err), s1)
             | None \<Rightarrow>
                 (case HashPassword bc (hasher svc) (Register_Password req) rnd of
                    Inl err \<Rightarrow> (Inl (Wrap ''failed to hash password'' err), s1)
                  | Inr hashedPassword \<Rightarrow>
                      (let user = \<lparr>User_ID = 0, User_Email = Register_Email req,
                                    User_Password = hashedPassword,
                                    User_CreatedAt = 0, User_UpdatedAt = 0\<rparr>
                       in case user_Create (auth_userRepo svc) user s1 of
                            (Inl err, s2) \<Rightarrow> (Inl (Wrap ''failed to create user'' err), s2)
                          | (Inr user', s2) \<Rightarrow>
                              (case GenerateToken jw (tokenManager svc) now
                                      (User_ID user') (User_Email user') of
                                 Inl err \<Rightarrow> (Inl (Wrap ''failed to generate token'' err), s2)
                               | Inr token \<Rightarrow>
                                   (Inr \<lparr>Token = token, Auth_User = ToUserInfo user'\<rparr>, s2))))))"

definition authService_Login ::
  "bcrypt_pkg \<Rightarrow> jwt_pkg \<Rightarrow> 's authService \<Rightarrow> time \<Rightarrow> LoginRequest \<Rightarrow> 's
     \<Rightarrow> (go_error + AuthResponse) \<times> 's" where
  "authService_Login bc jw svc now req s =
     (case user_GetByEmail (auth_userRepo svc) (Login_Email req) s of
        (Inl err, s1) \<Rightarrow>
          if errors_Is err gorm_ErrRecordNotFound then (Inl ErrInvalidCredentials, s1)
          else (Inl (Wrap ''failed to get user'' err), s1)
      | (Inr user, s1) \<Rightarrow>
          (case VerifyPassword bc (hasher svc) (User_Password user) (Login_Password req) of
             Some err \<Rightarrow> (Inl ErrInvalidCredentials, s1)
           | None \<Rightarrow>
               (case GenerateToken jw (tokenManager svc) now (User_ID user) (User_Email user) of
                  Inl err \<Rightarrow> (Inl (Wrap ''failed to generate token'' err), s1)
                | Inr token \<Rightarrow> (Inr \<lparr>Token = token, Auth_User = ToUserInfo user\<rparr>, s1))))"

definition authService_ValidateToken ::
  "jwt_pkg \<Rightarrow> 's authService \<Rightarrow> time \<Rightarrow> string \<Rightarrow> go_error + Claims" where
  "authService_ValidateToken jw svc now tokenString =
     (case ValidateToken jw (tokenManager svc) now tokenString of
        Inl err \<Rightarrow> Inl (Wrap ''token validation failed'' err)
      | Inr claims \<Rightarrow> Inr claims)"

subsection \<open>todoService\<close>

record 's todoService =
  todoRepo :: "'s TodoRepository"
  userRepo :: "'s UserRepository"

definition NewTodoService :: "'s TodoRepository \<Rightarrow> 's UserRepository \<Rightarrow> 's todoService" where
  "NewTodoService tr ur = \<lparr>todoRepo = tr, userRepo = ur\<rparr>"

definition todoService_Create ::
  "'s todoService \<Rightarrow> CreateTodoRequest \<Rightarrow> uint \<Rightarrow> 's \<Rightarrow> (go_error + Todo) \<times> 's" where
  "todoService_Create svc req userID s =
     (case user_GetByID (userRepo svc) userID s of
        (Inl err, s1) \<Rightarrow>
          if errors_Is err gorm_ErrRecordNotFound then (Inl ErrUserNotFound, s1)
          else (Inl (Wrap ''failed to verify user'' err), s1)
      | (Inr u, s1) \<Rightarrow>
          (let todo = \<lparr>Todo_ID = 0, Title = Create_Title req,
                        Description = Create_Description req, Completed = False,
                        UserID = userID, Todo_CreatedAt = 0, Todo_UpdatedAt = 0\<rparr>
           in case todo_Create (todoRepo svc) todo s1 of
                (Inl err, s2) \<Rightarrow> (Inl (Wrap ''failed to create todo'' err), s2)
              | (Inr todo', s2) \<Rightarrow> (Inr todo', s2)))"

definition todoService_GetByID ::
  "'s todoService \<Rightarrow> uint \<Rightarrow> uint \<Rightarrow> 's \<Rightarrow> (go_error + Todo) \<times> 's" where
  "todoService_GetByID svc tid userID s =
     (case todo_GetByID (todoRepo svc) tid userID s of
        (Inl err, s1) \<Rightarrow>
          if errors_Is err gorm_ErrRecordNotFound then (Inl ErrTodoNotFound, s1)
          else (Inl (Wrap ''failed to get todo'' err), s1)
      | (Inr todo, s1) \<Rightarrow>
          if UserID todo \<noteq> userID then (Inl ErrUnauthorizedAccess, s1)
          else (Inr todo, s1))"


definition todoService_Delete ::
  "'s todoService \<Rightarrow> uint \<Rightarrow> uint \<Rightarrow> 's \<Rightarrow> go_error option \<times> 's" where
  "todoService_Delete svc tid userID s =
     (case todo_GetByID (todoRepo svc) tid userID s of
        (Inl err, s1) \<Rightarrow>
          if errors_Is err gorm_ErrRecordNotFound then (Some ErrTodoNotFound, s1)
          else (Some (Wrap ''failed to verify todo ownership'' err), s1)
      | (Inr todo, s1) \<Rightarrow>
          (case todo_Delete (todoRepo svc) tid userID s1 of
             (Some err, s2) \<Rightarrow> (Some (Wrap ''failed to delete todo'' err), s2)
           | (None, s2) \<Rightarrow> (None, s2)))"

section \<open>The request context (github.com/gin-gonic/gin)\<close>

text \<open>
  What the middleware and the handlers use of \<open>gin.Context\<close>: the request headers, body
  and path parameters, the key-value store \<open>Keys\<close> of dynamically typed values, the position
  \<open>index\<close> in the handler chain, and the responses written so far. \<open>gin.H\<close> with the keys
  \<open>error\<close> and \<open>message\<close> and \<open>model.ErrorResponse\<close> without details are the same JSON,
  so both are an \<open>ErrorResponse\<close>.
\<close>

datatype any = AnyNil | AnyUint uint | AnyInt int | AnyString string | AnyBool bool

datatype json =
    ErrorResponse string string "string \<rightharpoonup> string"
  | TodoJSON Todo
  | AuthJSON AuthResponse

record Response =
  Status :: nat
  Body :: "json option"

record Context =
  Header :: "string \<rightharpoonup> string"
  Request_Body :: string
  Params :: "string \<rightharpoonup> string"
  Keys :: "string \<rightharpoonup> any"
  index :: int
  Written :: "Response list"

definition StatusOK :: nat where "StatusOK = 200"
definition StatusNoContent :: nat where "StatusNoContent = 204"
definition StatusBadRequest :: nat where "StatusBadRequest = 400"
definition StatusUnauthorized :: nat where "StatusUnauthorized = 401"
definition StatusNotFound :: nat where "StatusNotFound = 404"
definition StatusInternalServerError :: nat where "StatusInternalServerError = 500"

definition GetHeader :: "Context \<Rightarrow> string \<Rightarrow> string" where
  "GetHeader c k = (case Header c k of None \<Rightarrow> [] | Some v \<Rightarrow> v)"

definition Param :: "Context \<Rightarrow> string \<Rightarrow> string" where
  "Param c k = (case Params c k of None \<Rightarrow> [] | Some v \<Rightarrow> v)"

definition JSON :: "nat \<Rightarrow> json \<Rightarrow> Context \<Rightarrow> Context" where
  "JSON code obj c = c\<lparr>Written := Written c @ [\<lparr>Status = code, Body = Some obj\<rparr>]\<rparr>"

definition WriteStatus :: "nat \<Rightarrow> Context \<Rightarrow> Context" where
  "WriteStatus code c = c\<lparr>Written := Written c @ [\<lparr>Status = code, Body = None\<rparr>]\<rparr>"

definition abortIndex :: int where "abortIndex = 63"

definition Abort :: "Context \<Rightarrow> Context" where
  "Abort c = c\<lparr>index := abortIndex\<rparr>"

definition Set :: "string \<Rightarrow> any \<Rightarrow> Context \<Rightarrow> Context" where
  "Set k v c = c\<lparr>Keys := (Keys c)(k \<mapsto> v)\<rparr>"

text \<open>
  A handler works on the context and on the store behind the services. The engine's loop
  \<open>for c.index < len(c.handlers) { c.handlers[c.index](c); c.index++ }\<close> is \<open>run_from k hs\<close>
  on the handlers \<open>hs\<close> that sit at positions \<open>k, k + 1, \<dots>\<close> of the chain: a handler
  runs when \<open>index\<close> has reached its position and is passed over when \<open>index\<close> is
  already beyond it (after \<open>Abort\<close>, or when an earlier handler has run it through \<open>Next\<close>).
\<close>

type_synonym 's HandlerFunc = "Context \<Rightarrow> 's \<Rightarrow> Context \<times> 's"

fun run_from :: "int \<Rightarrow> 's HandlerFunc list \<Rightarrow> Context \<Rightarrow> 's \<Rightarrow> Context \<times> 's" where
  "run_from k [] c s = (c, s)"
| "run_from k (h # hs) c s =
     (if index c = k
      then (case h c s of (c', s') \<Rightarrow> run_from (k + 1) hs (c'\<lparr>index := index c' + 1\<rparr>) s')
      else run_from (k + 1) hs c s)"

text \<open>\<open>c.Next()\<close> called by the handler at position \<open>0\<close>, with \<open>hs\<close> the handlers after it.\<close>

definition Next :: "'s HandlerFunc list \<Rightarrow> Context \<Rightarrow> 's \<Rightarrow> Context \<times> 's" where
  "Next hs c s = run_from 1 hs (c\<lparr>index := index c + 1\<rparr>) s"

section \<open>Authentication middleware (internal/middleware/auth.go)\<close>

definition AuthorizationHeader :: string where "AuthorizationHeader = ''Authorization''"
definition BearerPrefix :: string where "BearerPrefix = ''Bearer ''"
definition UserIDKey :: string where "UserIDKey = ''user_id''"
definition UserEmailKey :: string where "UserEmailKey = ''user_email''"

definition HasPrefix :: "string \<Rightarrow> string \<Rightarrow> bool" where
  "HasPrefix s p = (take (length p) s = p)"

definition TrimPrefix :: "string \<Rightarrow> string \<Rightarrow> string" where
  "TrimPrefix s p = (if HasPrefix s p then drop (length p) s else s)"

definition unauthorized :: "string \<Rightarrow> Context \<Rightarrow> Context" where
  "unauthorized message c =
     Abort (JSON StatusUnauthorized (ErrorResponse ''unauthorized'' message Map.empty) c)"

text \<open>\<open>AuthMiddleware tokenManager\<close> is the handler at position \<open>0\<close> of the chain of a
  protected route; \<open>hs\<close> are the handlers behind it, which \<open>c.Next()\<close> runs.\<close>

definition AuthMiddleware ::
  "jwt_pkg \<Rightarrow> TokenManager \<Rightarrow> time \<Rightarrow> 's HandlerFunc list \<Rightarrow> 's HandlerFunc" where
  "AuthMiddleware jw tm now hs c s =
     (let authHeader = GetHeader c AuthorizationHeader
      in if authHeader = [] then (unauthorized ''Authorization header is required'' c, s)
         else if \<not> HasPrefix authHeader BearerPrefix
         then (unauthorized (''Authorization header must start with '' @ [CHR 0x27] @ ''Bearer ''
                          @ [CHR 0x27]) c, s)
         else
           (let tokenString = TrimPrefix authHeader BearerPrefix
            in if tokenString = [] then (unauthorized ''Token is required'' c, s)
               else
                 (case ValidateToken jw tm now tokenString of
                    Inl err \<Rightarrow>
                      (let message =
                         (if err = ErrExpiredToken then ''Token has expired''
                          else if err = ErrInvalidToken then ''Invalid token''
                          else if err = ErrTokenClaims then ''Invalid token claims''
                          else ''Token validation failed'')
                       in (unauthorized message c, s))
                  | Inr claims \<Rightarrow>
                      Next hs
                        (Set UserEmailKey (AnyString (Claims_Email claims))
                           (Set UserIDKey (AnyUint (Claims_UserID claims)) c)) s)))"

text \<open>The engine serving a protected route: it enters the chain at the middleware and
  goes on with the loop when the middleware returns.\<close>

definition ServeProtected ::
  "jwt_pkg \<Rightarrow> TokenManager \<Rightarrow> time \<Rightarrow> 's HandlerFunc list \<Rightarrow> 's HandlerFunc" where
  "ServeProtected jw tm now hs c s =
     (case AuthMiddleware jw tm now hs (c\<lparr>index := 0\<rparr>) s of
        (c1, s1) \<Rightarrow> run_from 1 hs (c1\<lparr>index := index c1 + 1\<rparr>) s1)"

text \<open>The comma-ok type assertions of the accessors: a value of another dynamic type
  gives the zero value and \<open>false\<close>.\<close>

definition GetUserID :: "Context \<Rightarrow> uint \<times> bool" where
  "GetUserID c =
     (case Keys c UserIDKey of
        None \<Rightarrow> (0, False)
      | Some userID \<Rightarrow> (case userID of AnyUint i \<Rightarrow> (i, True) | _ \<Rightarrow> (0, False)))"

definition GetUserEmail :: "Context \<Rightarrow> string \<times> bool" where
  "GetUserEmail c =
     (case Keys c UserEmailKey of
        None \<Rightarrow> ([], False)
      | Some userEmail \<Rightarrow> (case userEmail of AnyString e \<Rightarrow> (e, True) | _ \<Rightarrow> ([], False)))"

section \<open>HTTP handlers (internal/handler)\<close>

text \<open>
  The handlers call the services through the interfaces \<open>AuthService\<close> and \<open>TodoService\<close>;
  \<open>Services\<close> holds the methods the handlers below call. The JSON binding of the request
  body and the struct validator belong to the framework and are fields of the handler:
  \<open>ShouldBindJSON\<close> gives the decoded request or an error, \<open>validator_Struct\<close> the
  failing (field, tag) pairs, none when the request is valid.
\<close>

record 's Services =
  Auth_Login :: "LoginRequest \<Rightarrow> 's \<Rightarrow> (go_error + AuthResponse) \<times> 's"
  Todo_GetByID :: "uint \<Rightarrow> uint \<Rightarrow> 's \<Rightarrow> (go_error + Todo) \<times> 's"
  Todo_Delete :: "uint \<Rightarrow> uint \<Rightarrow> 's \<Rightarrow> go_error option \<times> 's"

record 's Handler =
  services :: "'s Services"
  ShouldBindJSON :: "Context \<Rightarrow> go_error + LoginRequest"
  validator_Struct :: "LoginRequest \<Rightarrow> (string \<times> string) list"

text \<open>\<open>NewServices\<close> over the two repositories, for one request served at time \<open>now\<close>.\<close>

definition NewServices ::
  "bcrypt_pkg \<Rightarrow> jwt_pkg \<Rightarrow> 's UserRepository \<Rightarrow> 's TodoRepository \<Rightarrow> TokenManager \<Rightarrow> time
     \<Rightarrow> 's Services" where
  "NewServices bc jw ur tr tm now =
     \<lparr>Auth_Login = authService_Login bc jw (NewAuthService ur tm) now,
      Todo_GetByID = todoService_GetByID (NewTodoService tr ur),
      Todo_Delete = todoService_Delete (NewTodoService tr ur)\<rparr>"

text \<open>\<open>strconv.ParseUint(s, 10, 32)\<close>: a non-empty string of decimal digits below \<open>2^32\<close>.\<close>

definition strconv_ErrSyntax :: go_error where
  "strconv_ErrSyntax = ErrorNew ''invalid syntax''"
definition strconv_ErrRange :: go_error where
  "strconv_ErrRange = ErrorNew ''value out of range''"

fun parse_digits :: "nat \<Rightarrow> string \<Rightarrow> nat option" where
  "parse_digits n [] = Some n"
| "parse_digits n (c # cs) =
     (let d = (of_char c :: nat)
      in if 48 \<le> d \<and> d \<le> 57 then parse_digits (n * 10 + (d - 48)) cs else None)"

definition strconv_ParseUint :: "string \<Rightarrow> go_error + nat" where
  "strconv_ParseUint s =
     (if s = [] then Inl strconv_ErrSyntax
      else (case parse_digits 0 s of
              None \<Rightarrow> Inl strconv_ErrSyntax
            | Some n \<Rightarrow> if n < 2 ^ 32 then Inr n else Inl strconv_ErrRange))"

definition Handler_Login :: "'s Handler \<Rightarrow> 's HandlerFunc" where
  "Handler_Login h c s =
     (case ShouldBindJSON h c of
        Inl err \<Rightarrow>
          (JSON StatusBadRequest
             (ErrorResponse ''invalid_request'' ''Invalid JSON format'' Map.empty) c, s)
      | Inr req \<Rightarrow>
          (let errs = validator_Struct h req
           in if errs \<noteq> []
              then
                (let details =
                   fold (\<lambda>(field, tag) m.
                           m(field \<mapsto>
                             (if tag = ''required'' then ''This field is required''
                              else if tag = ''email'' then ''Invalid email format''
                              else ''Invalid value'')))
                        errs Map.empty
                 in (JSON StatusBadRequest
                       (ErrorResponse ''validation_failed'' ''Invalid input data'' details) c, s))
              else
                (case Auth_Login (services h) req s of
                   (Inl err, s') \<Rightarrow>
                     (if Error err = ''invalid credentials'' \<or> Error err = ''user not found''
                      then (JSON StatusUnauthorized
                              (ErrorResponse ''invalid_credentials''
                                 ''Invalid email or password'' Map.empty) c, s')
                      else (JSON StatusInternalServerError
                              (ErrorResponse ''login_failed''
                                 ''Failed to authenticate user'' Map.empty) c, s'))
                 | (Inr response, s') \<Rightarrow> (JSON StatusOK (AuthJSON response) c, s'))))"

definition Handler_GetTodo :: "'s Handler \<Rightarrow> 's HandlerFunc" where
  "Handler_GetTodo h c s =
     (case GetUserID c of
        (userID, exists) \<Rightarrow>
          if \<not> exists
          then (JSON StatusUnauthorized
                  (ErrorResponse ''unauthorized'' ''User not authenticated'' Map.empty) c, s)
          else
            (let idStr = Param c ''id''
             in case strconv_ParseUint idStr of
                  Inl err \<Rightarrow>
                    (JSON StatusBadRequest
                       (ErrorResponse ''invalid_id'' ''Invalid todo ID format'' Map.empty) c, s)
                | Inr n \<Rightarrow>
                    (case Todo_GetByID (services h) (of_nat n) userID s of
                       (Inl err, s') \<Rightarrow>
                         (if Error err = ''todo not found''
                          then (JSON StatusNotFound
                                  (ErrorResponse ''not_found'' ''Todo not found'' Map.empty) c, s')
                          else (JSON StatusInternalServerError
                                  (ErrorResponse ''retrieval_failed''
                                     ''Failed to retrieve todo'' Map.empty) c, s'))
                     | (Inr todo, s') \<Rightarrow> (JSON StatusOK (TodoJSON todo) c, s'))))"

definition Handler_DeleteTodo :: "'s Handler \<Rightarrow> 's HandlerFunc" where
  "Handler_DeleteTodo h c s =
     (case GetUserID c of
        (userID, exists) \<Rightarrow>
          if \<not> exists
          then (JSON StatusUnauthorized
                  (ErrorResponse ''unauthorized'' ''User not authenticated'' Map.empty) c, s)
          else
            (let idStr = Param c ''id''
             in case strconv_ParseUint idStr of
                  Inl err \<Rightarrow>
                    (JSON StatusBadRequest
                       (ErrorResponse ''invalid_id'' ''Invalid todo ID format'' Map.empty) c, s)
                | Inr n \<Rightarrow>
                    (case Todo_Delete (services h) (of_nat n) userID s of
                       (Some err, s') \<Rightarrow>
                         (if Error err = ''todo not found''
                          then (JSON StatusNotFound
                                  (ErrorResponse ''not_found'' ''Todo not found'' Map.empty) c, s')
                          else (JSON StatusInternalServerError
                                  (ErrorResponse ''deletion_failed''
                                     ''Failed to delete todo'' Map.empty) c, s'))
                     | (None, s') \<Rightarrow> (WriteStatus StatusNoContent c, s'))))"

section \<open>A small store, for concrete runs\<close>

text \<open>Two registered users and one todo \<open>{title: "X", description: "Y", completed: false}\<close>
  owned by the first. The stored passwords are hashes made by \<open>toy_bcrypt\<close>.\<close>

definition user_A :: User where
  "user_A = \<lparr>User_ID = 1, User_Email = ''a@example.com'',
              User_Password = ''$2a$password123'', User_CreatedAt = 10, User_UpdatedAt = 10\<rparr>"

definition user_B :: User where
  "user_B = \<lparr>User_ID = 2, User_Email = ''b@example.com'',
              User_Password = ''$2a$hunter2hunter2'', User_CreatedAt = 20, User_UpdatedAt = 20\<rparr>"

definition todo_X :: Todo where
  "todo_X = \<lparr>Todo_ID = 1, Title = ''X'', Description = ''Y'', Completed = False,
              UserID = 1, Todo_CreatedAt = 30, Todo_UpdatedAt = 30\<rparr>"

definition example_db :: DB where
  "example_db = \<lparr>users = [user_A, user_B], todos = [todo_X], db_fault = None,
                  clock = 100, user_seq = 2, todo_seq = 1,
                  unique_violation = ErrorNew ''duplicate key value violates unique constraint''\<rparr>"

text \<open>A context as the middleware leaves it for the user with id \<open>uid\<close>, on the route
  \<open>/todos/{id}\<close> with path parameter \<open>idStr\<close>.\<close>

definition authed_ctx :: "uint \<Rightarrow> string \<Rightarrow> Context" where
  "authed_ctx uid idStr =
     \<lparr>Header = Map.empty, Request_Body = [], Params = [''id'' \<mapsto> idStr],
      Keys = [UserIDKey \<mapsto> AnyUint uid], index = 1, Written = []\<rparr>"

text \<open>A token library for concrete runs: it knows two token strings, both signed with the
  secret \<open>''k''\<close> by a toy MAC, one of them expired at time \<open>50\<close>.\<close>

definition toy_claims :: "time \<Rightarrow> Claims" where
  "toy_claims e = \<lparr>Claims_UserID = 1, Claims_Email = ''a@example.com'',
                    ExpiresAt = Some e, IssuedAt = Some 0, NotBefore = Some 0\<rparr>"

definition toy_jwt :: jwt_pkg where
  "toy_jwt =
     \<lparr>ParseUnverified = (\<lambda>s.
         if s = ''h.old.sig''
         then Inr \<lparr>Method = HMAC 256, Token_Claims = toy_claims 50,
                   SigningInput = ''h.old'', RawSignature = ''k/h.old'', Valid = False\<rparr>
         else if s = ''h.new.sig''
         then Inr \<lparr>Method = HMAC 256, Token_Claims = toy_claims 5000,
                   SigningInput = ''h.new'', RawSignature = ''k/h.new'', Valid = False\<rparr>
         else if s = ''n.new.''
         then Inr \<lparr>Method = NoneMethod, Token_Claims = toy_claims 50,
                   SigningInput = ''n.new'', RawSignature = '''', Valid = False\<rparr>
         else Inl (Malformed ''token contains an invalid number of segments'')),
      DecodeSegment = (\<lambda>s. Some s),
      DecodeSegment_error = (\<lambda>s. []),
      hmac = (\<lambda>n key text. key @ ''/'' @ text),
      Verify_other = (\<lambda>m. ErrorNew ''key is of invalid type''),
      Sign_other = (\<lambda>m. ErrorNew ''key is of invalid type''),
      SigningString = (\<lambda>m c. ''h.new''),
      EncodeSegment = (\<lambda>s. s)\<rparr>"

text \<open>A todo repository in which a concurrent request deletes the todo right after the
  existence check has read it: \<open>GetByID\<close> answers from the store as it is and leaves the
  store as the other request's scoped delete leaves it.\<close>

definition racing_todoRepository :: "DB TodoRepository" where
  "racing_todoRepository =
     NewTodoRepository\<lparr>todo_GetByID := (\<lambda>tid userID db.
        (fst (todoRepository_GetByID tid userID db),
         snd (todoRepository_Delete tid userID db)))\<rparr>"

text \<open>A handler over the GORM user repository and a given todo repository. Its binder
  reads a login request written as \<open>email password\<close>, and every request passes
  validation.\<close>

definition toy_bind :: "Context \<Rightarrow> go_error + LoginRequest" where
  "toy_bind c =
     Inr \<lparr>Login_Email = takeWhile (\<lambda>x. x \<noteq> CHR '' '') (Request_Body c),
          Login_Password = drop 1 (dropWhile (\<lambda>x. x \<noteq> CHR '' '') (Request_Body c))\<rparr>"

definition example_handler :: "DB TodoRepository \<Rightarrow> DB Handler" where
  "example_handler tr =
     \<lparr>services = NewServices toy_bcrypt toy_jwt NewUserRepository tr (NewTokenManager ''k'' 24) 100,
      ShouldBindJSON = toy_bind, validator_Struct = (\<lambda>r. [])\<rparr>"

definition login_ctx :: "string \<Rightarrow> Context" where
  "login_ctx body =
     \<lparr>Header = Map.empty, Request_Body = body, Params = Map.empty,
      Keys = Map.empty, index = 0, Written = []\<rparr>"

text \<open>A request with the given \<open>Authorization\<close> header, and a downstream handler that
  answers 200 and empties the todo table.\<close>

definition header_ctx :: "string \<Rightarrow> Context" where
  "header_ctx h =
     \<lparr>Header = [AuthorizationHeader \<mapsto> h], Request_Body = [], Params = Map.empty,
      Keys = Map.empty, index = 0, Written = []\<rparr>"

definition spy_handler :: "DB HandlerFunc" where
  "spy_handler c db =
     (JSON StatusOK (ErrorResponse ''ok'' ''handler ran'' Map.empty) c, db\<lparr>todos := []\<rparr>)"

section \<open>Properties of package password\<close>

text \<open>
  C5. A password shorter than 8 or longer than 128 bytes makes both \<open>HashPassword\<close> and
  \<open>VerifyPassword\<close> fail with \<open>ErrInvalidPassword\<close>, whatever its content and whatever
  the stored hash; the result does not depend on the bcrypt library, which is not called.
  The length that decides is the number of bytes, which is what \<open>len(password)\<close> is, not
  the number of characters.
\<close>

theorem password_length_gate:
  assumes "length password < 8 \<or> length password > 128"
  shows "HashPassword lib h password rnd = Inl ErrInvalidPassword
       \<and> VerifyPassword lib h hashedPassword password = Some ErrInvalidPassword"
  using assms
  by (auto simp: HashPassword_def VerifyPassword_def MinPasswordLength_def MaxPasswordLength_def)

theorem password_length_gate_witness:
  "(length ''short'' < 8 \<or> length ''short'' > 128)
   \<and> HashPassword toy_bcrypt NewHasher ''short'' ''r'' = Inl ErrInvalidPassword
   \<and> VerifyPassword toy_bcrypt NewHasher ''$2a$validpassword123'' ''short''
       = Some ErrInvalidPassword"
  using password_length_gate [of "''short''" toy_bcrypt NewHasher "''r''" "''$2a$validpassword123''"]
  by simp

text \<open>
  C5 with the length read as a number of characters fails: four times a-umlaut
  is a password of four characters, fewer than 8, but of eight bytes, and neither function
  answers \<open>ErrInvalidPassword\<close> for it. The password is hashed, and it verifies.
\<close>

theorem password_length_in_characters_counterexample:
  "utf8_characters four_umlauts = 4 \<and> utf8_characters four_umlauts < 8
 \<and> HashPassword toy_bcrypt NewHasher four_umlauts ''salt'' = Inr (''$2a$'' @ four_umlauts)
 \<and> HashPassword toy_bcrypt NewHasher four_umlauts ''salt'' \<noteq> Inl ErrInvalidPassword
 \<and> VerifyPassword toy_bcrypt NewHasher (''$2a$'' @ four_umlauts) four_umlauts = None
 \<and> VerifyPassword toy_bcrypt NewHasher (''$2a$'' @ four_umlauts) four_umlauts
      \<noteq> Some ErrInvalidPassword"
  by (simp add: utf8_characters_def four_umlauts_def HashPassword_def VerifyPassword_def
      toy_bcrypt_def MinPasswordLength_def MaxPasswordLength_def)

text \<open>This does not rest on the stand-in library: with 8 to 128 bytes no library makes
  either function answer \<open>ErrInvalidPassword\<close>. In the other direction the two counts
  agree: a string has no more characters than bytes, so more than 128 characters are more
  than 128 bytes and are refused.\<close>

lemma length_gate_open:
  assumes "8 \<le> length password" and "length password \<le> 128"
  shows "HashPassword lib h password rnd \<noteq> Inl ErrInvalidPassword"
    and "VerifyPassword lib h hashedPassword password \<noteq> Some ErrInvalidPassword"
  using assms
  by (auto simp: HashPassword_def VerifyPassword_def MinPasswordLength_def MaxPasswordLength_def
      ErrInvalidPassword_def ErrHashingFailed_def ErrVerificationFailed_def
      split: sum.splits option.splits)

lemma utf8_characters_le_length:
  "utf8_characters s \<le> length s"
  by (simp add: utf8_characters_def)

lemma more_than_128_characters_refused:
  assumes "128 < utf8_characters password"
  shows "HashPassword lib h password rnd = Inl ErrInvalidPassword"
    and "VerifyPassword lib h hashedPassword password = Some ErrInvalidPassword"
proof -
  have "128 < length password"
    using assms utf8_characters_le_length [of password] by simp
  then show "HashPassword lib h password rnd = Inl ErrInvalidPassword"
    and "VerifyPassword lib h hashedPassword password = Some ErrInvalidPassword"
    by (simp_all add: HashPassword_def VerifyPassword_def MinPasswordLength_def
        MaxPasswordLength_def)
qed

text \<open>
  C4. The bcrypt library refuses to hash a password of more than 72 bytes
  (\<open>ErrPasswordTooLong\<close>). With a library that does so, \<open>HashPassword\<close> fails with
  \<open>ErrHashingFailed\<close> on every password of 73 to 128 bytes, although the password passes
  the length check and \<open>ValidatePasswordStrength\<close>: for these passwords there is no hash
  to verify against.
\<close>

theorem hashing_fails_beyond_72_bytes:
  assumes "\<forall>pw c r. 72 < length pw \<longrightarrow> GenerateFromPassword lib pw c r = Inl bcrypt_ErrPasswordTooLong"
    and "72 < length password" and "length password \<le> 128"
  shows "ValidatePasswordStrength password = None
       \<and> HashPassword lib h password rnd = Inl ErrHashingFailed"
  using assms
  by (simp add: ValidatePasswordStrength_def HashPassword_def MinPasswordLength_def
      MaxPasswordLength_def)

theorem hashing_fails_beyond_72_bytes_witness:
  "ValidatePasswordStrength (replicate 73 CHR ''a'') = None
 \<and> HashPassword toy_bcrypt NewHasher (replicate 73 CHR ''a'') ''salt'' = Inl ErrHashingFailed"
  using hashing_fails_beyond_72_bytes [of toy_bcrypt "replicate 73 CHR ''a''" NewHasher "''salt''"]
  by (simp add: toy_bcrypt_def)

text \<open>What the package adds to the library: with a password of 8 to 128 bytes
  \<open>HashPassword\<close> succeeds exactly when the library does, \<open>VerifyPassword\<close> succeeds
  exactly when the library's comparison does, and whatever error the comparison returns
  comes out as \<open>ErrVerificationFailed\<close>.\<close>

lemma VerifyPassword_errors:
  "VerifyPassword lib h hashedPassword password = None
 \<or> VerifyPassword lib h hashedPassword password = Some ErrInvalidPassword
 \<or> VerifyPassword lib h hashedPassword password = Some ErrVerificationFailed"
  by (simp add: VerifyPassword_def split: option.split)

lemma hash_then_verify:
  assumes "8 \<le> length p" and "length p \<le> 128" and "8 \<le> length q" and "length q \<le> 128"
    and "GenerateFromPassword lib p (cost h) rnd = Inr hp"
  shows "HashPassword lib h p rnd = Inr hp"
    and "VerifyPassword lib h hp q =
           (if CompareHashAndPassword lib hp q = None then None else Some ErrVerificationFailed)"
  using assms
  by (auto simp: HashPassword_def VerifyPassword_def MinPasswordLength_def MaxPasswordLength_def
      split: option.splits)

section \<open>Facts about the store and the services\<close>








text \<open>The scoped delete of the repository reports \<open>gorm.ErrRecordNotFound\<close> exactly when
  no row has the id and the owner.\<close>

lemma todoRepository_Delete_zero_rows:
  assumes "db_fault db = None"
  shows "fst (todoRepository_Delete tid userID db) = Some gorm_ErrRecordNotFound
           \<longleftrightarrow> (\<forall>t \<in> set (todos db). \<not> (Todo_ID t = tid \<and> UserID t = userID))"
  using assms
  by (auto simp: todoRepository_Delete_def Let_def filter_empty_conv)

text \<open>Every other error of the service, \<open>ErrUnauthorizedAccess\<close> among them, is answered
  with 500 by \<open>GetTodo\<close>.\<close>

lemma Handler_GetTodo_other_error:
  assumes "Todo_GetByID (services h) tid userID s = (Inl err, s')"
    and "Error err \<noteq> ''todo not found''"
    and "GetUserID c = (userID, True)"
    and "strconv_ParseUint (Param c ''id'') = Inr n" and "of_nat n = tid"
  shows "Handler_GetTodo h c s
           = (JSON StatusInternalServerError
                (ErrorResponse ''retrieval_failed'' ''Failed to retrieve todo'' Map.empty) c, s')"
  using assms by (simp add: Handler_GetTodo_def)

lemma Error_ErrUnauthorizedAccess:
  "Error ErrUnauthorizedAccess \<noteq> ''todo not found''"
  by (simp add: ErrUnauthorizedAccess_def)


lemma find_distinct_email:
  assumes "distinct (map User_Email us)" "u \<in> set us"
  shows "find (\<lambda>x. User_Email x = User_Email u) us = Some u"
  using assms
proof (induction us)
  case Nil
  then show ?case by simp
next
  case (Cons a us)
  then show ?case by (cases "a = u") (auto simp: image_iff)
qed

lemma find_unregistered_email:
  assumes "e \<notin> User_Email ` set us"
  shows "find (\<lambda>x. User_Email x = e) us = None"
  using assms by (auto simp: find_None_iff)

lemma Handler_Login_invalid_credentials:
  assumes "ShouldBindJSON h c = Inr req" and "validator_Struct h req = []"
    and "Auth_Login (services h) req s = (Inl ErrInvalidCredentials, s')"
  shows "Handler_Login h c s
           = (JSON StatusInternalServerError
                (ErrorResponse ''login_failed'' ''Failed to authenticate user'' Map.empty) c, s')"
  using assms by (simp add: Handler_Login_def ErrInvalidCredentials_def)

text \<open>The expiration of a manager: 24 hours are 86400 seconds, and with 2562048 hours the
  64-bit product has wrapped to a negative duration.\<close>

lemma expiration_24_hours:
  "sint (expiration (NewTokenManager key 24)) = 86400 * 1000000000"
  by (simp add: NewTokenManager_def time_Hour_def time_Second_def)

lemma expiration_wraps:
  "sint (expiration (NewTokenManager key 2562048)) < 0"
  by (simp add: NewTokenManager_def time_Hour_def time_Second_def)

text \<open>Signing with HS256 and a byte-slice key has no failing path.\<close>

lemma GenerateToken_succeeds:
  "\<exists>token. GenerateToken jw tm now userID email = Inr token"
  by (simp add: GenerateToken_def jwt_SignedString_def SigningMethodHS256_def Let_def)

lemma Register_email_exists:
  assumes "user_GetByEmail ur (Register_Email req) s = (Inr u, s1)"
  shows "authService_Register bc jw (NewAuthService ur tm) now rnd req s
           = (Inl ErrEmailAlreadyExists, s1)"
  using assms by (simp add: authService_Register_def NewAuthService_def)

lemma Register_validation_fails:
  assumes "user_GetByEmail ur (Register_Email req) s = (Inl err, s1)"
    and "errors_Is err gorm_ErrRecordNotFound"
    and "ValidatePasswordStrength (Register_Password req) = Some e"
  shows "authService_Register bc jw (NewAuthService ur tm) now rnd req s
           = (Inl (Wrap ''password validation failed'' e), s1)"
  using assms by (simp add: authService_Register_def NewAuthService_def)

lemma Register_hashing_fails:
  assumes "user_GetByEmail ur (Register_Email req) s = (Inl err, s1)"
    and "errors_Is err gorm_ErrRecordNotFound"
    and "ValidatePasswordStrength (Register_Password req) = None"
    and "HashPassword bc NewHasher (Register_Password req) rnd = Inl e"
  shows "authService_Register bc jw (NewAuthService ur tm) now rnd req s
           = (Inl (Wrap ''failed to hash password'' e), s1)"
  using assms by (simp add: authService_Register_def NewAuthService_def)

lemma Register_store_changed:
  assumes "user_GetByEmail ur (Register_Email req) s = (r, s1)"
    and "snd (authService_Register bc jw (NewAuthService ur tm) now rnd req s) \<noteq> s1"
  shows "(\<exists>err. r = Inl err \<and> errors_Is err gorm_ErrRecordNotFound)
       \<and> ValidatePasswordStrength (Register_Password req) = None
       \<and> (\<exists>hp. HashPassword bc NewHasher (Register_Password req) rnd = Inr hp
             \<and> snd (authService_Register bc jw (NewAuthService ur tm) now rnd req s)
                 = snd (user_Create ur \<lparr>User_ID = 0, User_Email = Register_Email req,
                                         User_Password = hp,
                                         User_CreatedAt = 0, User_UpdatedAt = 0\<rparr> s1))"
proof (cases r)
  case (Inr u)
  then show ?thesis using assms by (simp add: Register_email_exists)
next
  case (Inl err)
  show ?thesis
  proof (cases "errors_Is err gorm_ErrRecordNotFound")
    case False
    then show ?thesis using assms Inl
      by (simp add: authService_Register_def NewAuthService_def)
  next
    case nf: True
    show ?thesis
    proof (cases "ValidatePasswordStrength (Register_Password req)")
      case (Some e)
      then show ?thesis using assms Inl nf by (simp add: Register_validation_fails)
    next
      case None
      show ?thesis
      proof (cases "HashPassword bc NewHasher (Register_Password req) rnd")
        case (Inl e)
        then show ?thesis using assms \<open>r = Inl err\<close> nf None
          by (simp add: Register_hashing_fails)
      next
        case (Inr hp)
        then show ?thesis using assms \<open>r = Inl err\<close> nf None
          by (auto simp: authService_Register_def NewAuthService_def Let_def
              split: prod.splits sum.splits)
      qed
    qed
  qed
qed


lemma userRepository_GetByEmail_store:
  "snd (userRepository_GetByEmail email db) = db"
  by (simp add: userRepository_GetByEmail_def split: option.split)

lemma userRepository_Create_cases:
  "(\<exists>err. userRepository_Create user db = (Inl err, db))
 \<or> userRepository_Create user db
      = (Inr (user\<lparr>User_ID := user_seq db + 1,
                     User_CreatedAt := clock db, User_UpdatedAt := clock db\<rparr>),
         db\<lparr>users := users db @ [user\<lparr>User_ID := user_seq db + 1,
                     User_CreatedAt := clock db, User_UpdatedAt := clock db\<rparr>],
            user_seq := user_seq db + 1\<rparr>)"
  by (simp add: userRepository_Create_def Let_def split: option.split)

text \<open>\<open>Register\<close> over the GORM repository: an error with the store as it was, or a
  response with exactly one new row, made from the validated and hashed password.\<close>

lemma Register_gorm:
  "(\<exists>e. authService_Register bc jw (NewAuthService NewUserRepository tm) now rnd req db
          = (Inl e, db))
 \<or> (\<exists>resp hp. authService_Register bc jw (NewAuthService NewUserRepository tm) now rnd req db
          = (Inr resp,
             db\<lparr>users := users db @ [\<lparr>User_ID = user_seq db + 1,
                                         User_Email = Register_Email req, User_Password = hp,
                                         User_CreatedAt = clock db, User_UpdatedAt = clock db\<rparr>],
                user_seq := user_seq db + 1\<rparr>)
        \<and> find (\<lambda>u. User_Email u = Register_Email req) (users db) = None
        \<and> ValidatePasswordStrength (Register_Password req) = None
        \<and> HashPassword bc NewHasher (Register_Password req) rnd = Inr hp)"
proof -
  let ?lk = "userRepository_GetByEmail (Register_Email req) db"
  show ?thesis
  proof (cases "db_fault db")
    case (Some err)
    then show ?thesis
      by (simp add: authService_Register_def NewAuthService_def NewUserRepository_def
          userRepository_GetByEmail_def userRepository_Create_def Let_def
          split: option.split sum.split)
  next
    case None
    show ?thesis
    proof (cases "find (\<lambda>u. User_Email u = Register_Email req) (users db)")
      case (Some u)
      then show ?thesis using None
        by (simp add: authService_Register_def NewAuthService_def NewUserRepository_def
            userRepository_GetByEmail_def)
    next
      case nf: None
      then have ex: "\<not> list_ex (\<lambda>u. User_Email u = Register_Email req) (users db)"
        by (simp add: find_None_iff list_ex_iff)
      show ?thesis
      proof (cases "ValidatePasswordStrength (Register_Password req)")
        case (Some e)
        then show ?thesis using None nf
          by (simp add: authService_Register_def NewAuthService_def NewUserRepository_def
              userRepository_GetByEmail_def gorm_ErrRecordNotFound_def)
      next
        case v: None
        show ?thesis
        proof (cases "HashPassword bc NewHasher (Register_Password req) rnd")
          case (Inl e)
          then show ?thesis using None nf v
            by (simp add: authService_Register_def NewAuthService_def NewUserRepository_def
                userRepository_GetByEmail_def gorm_ErrRecordNotFound_def)
        next
          case (Inr hp)
          obtain token where tk: "GenerateToken jw tm now (user_seq db + 1) (Register_Email req)
                                    = Inr token"
            using GenerateToken_succeeds by blast
          show ?thesis using None nf v Inr ex tk
            by (simp add: authService_Register_def NewAuthService_def NewUserRepository_def
                userRepository_GetByEmail_def userRepository_Create_def
                gorm_ErrRecordNotFound_def Let_def)
        qed
      qed
    qed
  qed
qed


text \<open>Handlers at positions that \<open>index\<close> has passed are not run; after \<open>Abort\<close> that
  is every handler of a chain of fewer than 63.\<close>

lemma run_from_beyond:
  "k + int (length hs) \<le> index c \<Longrightarrow> run_from k hs c s = (c, s)"
  by (induction hs arbitrary: k) auto

lemma ServeProtected_rejected:
  assumes "length hs < 63"
    and "AuthMiddleware jw tm now hs (c\<lparr>index := 0\<rparr>) s = (unauthorized message (c\<lparr>index := 0\<rparr>), s)"
  shows "ServeProtected jw tm now hs c s
       = (c\<lparr>index := 64,
            Written := Written c @ [\<lparr>Status = 401,
                                     Body = Some (ErrorResponse ''unauthorized'' message Map.empty)\<rparr>]\<rparr>, s)"
proof -
  let ?c = "(unauthorized message (c\<lparr>index := 0\<rparr>))\<lparr>index := index (unauthorized message (c\<lparr>index := 0\<rparr>)) + 1\<rparr>"
  have i: "index ?c = 64"
    by (simp add: unauthorized_def Abort_def JSON_def abortIndex_def)
  have "run_from 1 hs ?c s = (?c, s)"
    using assms(1) i by (intro run_from_beyond) simp
  then show ?thesis
    using assms(2)
    by (simp add: ServeProtected_def unauthorized_def Abort_def JSON_def abortIndex_def
        StatusUnauthorized_def)
qed

lemma errors_Is_jwt_newError:
  "errors_Is (jwt_newError message err others) (ErrorNew m)
     \<longleftrightarrow> errors_Is err (ErrorNew m) \<or> list_ex (\<lambda>e. errors_Is e (ErrorNew m)) others"
  by (simp add: jwt_newError_def)

lemma jwt_Validate_expired:
  "jwt_Validate now cl = Some err \<Longrightarrow>
     errors_Is (jwt_newError [] jwt_ErrTokenInvalidClaims [err]) jwt_ErrTokenExpired
       \<longleftrightarrow> (\<exists>e. ExpiresAt cl = Some e \<and> e \<le> now)"
  by (auto simp: jwt_Validate_def Let_def jwt_newError_def jwt_ErrTokenInvalidClaims_def
      jwt_ErrTokenExpired_def jwt_ErrTokenNotValidYet_def split: option.splits if_splits)

lemma jwt_Validate_ok:
  "jwt_Validate now cl = None \<longleftrightarrow>
     (\<forall>e. ExpiresAt cl = Some e \<longrightarrow> now < e) \<and> (\<forall>n. NotBefore cl = Some n \<longrightarrow> n \<le> now)"
  by (auto simp: jwt_Validate_def Let_def split: option.splits if_splits)

text \<open>\<open>ValidateToken\<close>, check by check.\<close>

lemma ValidateToken_cases:
  "ValidateToken lib tm now t =
     (case ParseUnverified lib t of
        Inl f \<Rightarrow> Inl ErrInvalidToken
      | Inr tok \<Rightarrow>
          if \<not> SigningMethodHMAC (Method tok) then Inl ErrInvalidToken
          else (case DecodeSegment lib (RawSignature tok) of
                  None \<Rightarrow> Inl ErrInvalidToken
                | Some sig \<Rightarrow>
                    if jwt_Verify lib (Method tok) (SigningInput tok) sig (secretKey tm) \<noteq> None
                    then Inl ErrInvalidToken
                    else if \<exists>e. ExpiresAt (Token_Claims tok) = Some e \<and> e \<le> now
                    then Inl ErrExpiredToken
                    else if \<exists>n. NotBefore (Token_Claims tok) = Some n \<and> now < n
                    then Inl ErrInvalidToken
                    else Inr (Token_Claims tok)))"
proof (cases "ParseUnverified lib t")
  case (Inl f)
  then show ?thesis
    by (cases f) (simp_all add: ValidateToken_def jwt_ParseWithClaims_def jwt_newError_def
        jwt_ErrTokenMalformed_def jwt_ErrTokenUnverifiable_def jwt_ErrTokenExpired_def)
next
  case (Inr tok)
  show ?thesis
  proof (cases "SigningMethodHMAC (Method tok)")
    case False
    then show ?thesis using Inr
      by (simp add: ValidateToken_def jwt_ParseWithClaims_def jwt_newError_def
          ErrInvalidToken_def jwt_ErrTokenUnverifiable_def jwt_ErrTokenExpired_def)
  next
    case hm: True
    show ?thesis
    proof (cases "DecodeSegment lib (RawSignature tok)")
      case None
      then show ?thesis using Inr hm
        by (simp add: ValidateToken_def jwt_ParseWithClaims_def jwt_newError_def
            jwt_ErrTokenMalformed_def jwt_ErrTokenExpired_def)
    next
      case (Some sig)
      show ?thesis
      proof (cases "jwt_Verify lib (Method tok) (SigningInput tok) sig (secretKey tm)")
        case (Some err)
        then have "err = jwt_ErrSignatureInvalid"
          using hm by (cases "Method tok") (auto simp: jwt_Verify_def split: if_splits)
        then show ?thesis using Inr hm \<open>DecodeSegment lib (RawSignature tok) = Some sig\<close> Some
          by (auto simp: ValidateToken_def jwt_ParseWithClaims_def jwt_newError_def
              jwt_ErrTokenSignatureInvalid_def jwt_ErrSignatureInvalid_def
              jwt_ErrTokenExpired_def)
      next
        case None
        show ?thesis
        proof (cases "jwt_Validate now (Token_Claims tok)")
          case ok: None
          have f: "\<not> (\<exists>e. ExpiresAt (Token_Claims tok) = Some e \<and> e \<le> now)"
            "\<not> (\<exists>n. NotBefore (Token_Claims tok) = Some n \<and> now < n)"
            using ok by (auto simp: jwt_Validate_ok)
          show ?thesis
            using Inr hm \<open>DecodeSegment lib (RawSignature tok) = Some sig\<close> None ok f
            by (simp add: ValidateToken_def jwt_ParseWithClaims_def)
        next
          case (Some err)
          have dec: "DecodeSegment lib (RawSignature tok) = Some sig" by fact
          show ?thesis
          proof (cases "\<exists>e. ExpiresAt (Token_Claims tok) = Some e \<and> e \<le> now")
            case True
            then have "errors_Is (jwt_newError [] jwt_ErrTokenInvalidClaims [err]) jwt_ErrTokenExpired"
              using jwt_Validate_expired [OF Some] by simp
            then show ?thesis using Inr hm dec None Some True
              by (auto simp: ValidateToken_def jwt_ParseWithClaims_def simp del: errors_Is.simps)
          next
            case False
            then have "\<not> errors_Is (jwt_newError [] jwt_ErrTokenInvalidClaims [err]) jwt_ErrTokenExpired"
              using jwt_Validate_expired [OF Some] by simp
            moreover have "\<exists>n. NotBefore (Token_Claims tok) = Some n \<and> now < n"
              using False Some
              by (auto simp: jwt_Validate_def Let_def split: option.splits if_splits)
            ultimately show ?thesis using Inr hm dec None Some False
              by (auto simp: ValidateToken_def jwt_ParseWithClaims_def simp del: errors_Is.simps)
          qed
        qed
      qed
    qed
  qed
qed


lemmas example_defs =
  example_db_def user_A_def user_B_def todo_X_def authed_ctx_def login_ctx_def header_ctx_def
  example_handler_def toy_bind_def
  NewServices_def NewTodoService_def NewAuthService_def NewTodoRepository_def
  NewUserRepository_def NewTokenManager_def NewHasher_def

section \<open>Properties of the todo operations\<close>





text \<open>
  C7. When the existence check of \<open>Delete\<close> finds the todo and the scoped delete then
  affects no row, the repository reports \<open>gorm.ErrRecordNotFound\<close>; the service wraps it as
  "failed to delete todo: record not found", which is not \<open>ErrTodoNotFound\<close>, and
  \<open>DELETE /todos/{id}\<close> answers 500 "deletion_failed".
\<close>

theorem delete_race_is_not_todo_not_found:
  assumes "todo_GetByID (todoRepo svc) tid userID s = (Inr t, s1)"
    and "todo_Delete (todoRepo svc) tid userID s1 = (Some gorm_ErrRecordNotFound, s2)"
    and "Todo_Delete (services h) = todoService_Delete svc"
    and "GetUserID c = (userID, True)"
    and "strconv_ParseUint (Param c ''id'') = Inr n" and "of_nat n = tid"
  shows "todoService_Delete svc tid userID s
           = (Some (Wrap ''failed to delete todo'' gorm_ErrRecordNotFound), s2)
       \<and> Wrap ''failed to delete todo'' gorm_ErrRecordNotFound \<noteq> ErrTodoNotFound
       \<and> Handler_DeleteTodo h c s
           = (JSON StatusInternalServerError
                (ErrorResponse ''deletion_failed'' ''Failed to delete todo'' Map.empty) c, s2)"
  using assms
  by (simp add: todoService_Delete_def Handler_DeleteTodo_def ErrTodoNotFound_def
      gorm_ErrRecordNotFound_def)

text \<open>User 1 deletes todo 1 while a concurrent request removes it after the check.\<close>

theorem delete_race_is_not_todo_not_found_witness:
  "todoService_Delete (NewTodoService racing_todoRepository NewUserRepository) 1 1 example_db
     = (Some (Wrap ''failed to delete todo'' gorm_ErrRecordNotFound), example_db\<lparr>todos := []\<rparr>)
   \<and> Handler_DeleteTodo (example_handler racing_todoRepository)
        (authed_ctx 1 ''1'') example_db
     = (JSON StatusInternalServerError
          (ErrorResponse ''deletion_failed'' ''Failed to delete todo'' Map.empty)
          (authed_ctx 1 ''1''), example_db\<lparr>todos := []\<rparr>)"
  using delete_race_is_not_todo_not_found
      [of "NewTodoService racing_todoRepository NewUserRepository" 1 1 example_db
       todo_X "example_db\<lparr>todos := []\<rparr>" "example_db\<lparr>todos := []\<rparr>"
       "example_handler racing_todoRepository"
       "authed_ctx 1 ''1''" 1]
  by (simp add: racing_todoRepository_def example_defs
      todoRepository_GetByID_def todoRepository_Delete_def
      GetUserID_def Param_def strconv_ParseUint_def UserIDKey_def)

section \<open>Properties of the middleware\<close>

text \<open>
  C10. \<open>GetUserID\<close> and \<open>GetUserEmail\<close> return the zero value and \<open>false\<close> when the key is
  absent and when the stored value has another dynamic type than \<open>uint\<close> (for the id) or
  \<open>string\<close> (for the email); they return a value and \<open>true\<close> exactly when a value of
  that type is stored. As functions of the context they have a result for every context.
\<close>

theorem context_accessors_total:
  "(Keys c UserIDKey = None \<longrightarrow> GetUserID c = (0, False))
 \<and> (\<forall>v. Keys c UserIDKey = Some v \<and> (\<forall>i. v \<noteq> AnyUint i) \<longrightarrow> GetUserID c = (0, False))
 \<and> (\<forall>i. Keys c UserIDKey = Some (AnyUint i) \<longrightarrow> GetUserID c = (i, True))
 \<and> (\<forall>i. GetUserID c = (i, True) \<longrightarrow> Keys c UserIDKey = Some (AnyUint i))
 \<and> (Keys c UserEmailKey = None \<longrightarrow> GetUserEmail c = ([], False))
 \<and> (\<forall>v. Keys c UserEmailKey = Some v \<and> (\<forall>e. v \<noteq> AnyString e) \<longrightarrow> GetUserEmail c = ([], False))
 \<and> (\<forall>e. Keys c UserEmailKey = Some (AnyString e) \<longrightarrow> GetUserEmail c = (e, True))
 \<and> (\<forall>e. GetUserEmail c = (e, True) \<longrightarrow> Keys c UserEmailKey = Some (AnyString e))"
  by (auto simp: GetUserID_def GetUserEmail_def split: option.splits any.splits)

text \<open>A context whose \<open>user_id\<close> is a string and whose \<open>user_email\<close> is a string: the id
  is reported as not present, the email is returned.\<close>

theorem context_accessors_total_witness:
  "GetUserID \<lparr>Header = Map.empty, Request_Body = [], Params = Map.empty,
              Keys = [UserIDKey \<mapsto> AnyString ''7'', UserEmailKey \<mapsto> AnyString ''a@example.com''],
              index = 0, Written = []\<rparr> = (0, False)
 \<and> GetUserEmail \<lparr>Header = Map.empty, Request_Body = [], Params = Map.empty,
              Keys = [UserIDKey \<mapsto> AnyString ''7'', UserEmailKey \<mapsto> AnyString ''a@example.com''],
              index = 0, Written = []\<rparr> = (''a@example.com'', True)"
  using context_accessors_total [of "\<lparr>Header = Map.empty, Request_Body = [], Params = Map.empty,
              Keys = [UserIDKey \<mapsto> AnyString ''7'', UserEmailKey \<mapsto> AnyString ''a@example.com''],
              index = 0, Written = []\<rparr>"]
  by (simp add: UserIDKey_def UserEmailKey_def)

text \<open>
  C8. On a protected route (a chain of fewer than 63 handlers behind the middleware, which is
  all the framework admits) a request without \<open>Authorization\<close> header, one whose header
  does not start with \<open>Bearer \<close>, and one whose token is empty after the prefix are each
  answered with status 401 and the error "unauthorized", with three messages that differ
  from each other. The chain is aborted: the result is the same for every list \<open>hs\<close> of
  downstream handlers and the store is untouched, so no downstream handler has run.
\<close>

theorem missing_or_bad_bearer_is_rejected:
  assumes "length hs < 63"
  shows "(GetHeader c AuthorizationHeader = [] \<longrightarrow>
            ServeProtected jw tm now hs c s
              = (c\<lparr>index := 64,
                   Written := Written c @ [\<lparr>Status = 401, Body = Some (ErrorResponse
                     ''unauthorized'' ''Authorization header is required'' Map.empty)\<rparr>]\<rparr>, s))
       \<and> (GetHeader c AuthorizationHeader \<noteq> []
            \<and> \<not> HasPrefix (GetHeader c AuthorizationHeader) BearerPrefix \<longrightarrow>
            ServeProtected jw tm now hs c s
              = (c\<lparr>index := 64,
                   Written := Written c @ [\<lparr>Status = 401, Body = Some (ErrorResponse
                     ''unauthorized''
                     (''Authorization header must start with '' @ [CHR 0x27] @ ''Bearer ''
                        @ [CHR 0x27]) Map.empty)\<rparr>]\<rparr>, s))
       \<and> (HasPrefix (GetHeader c AuthorizationHeader) BearerPrefix
            \<and> TrimPrefix (GetHeader c AuthorizationHeader) BearerPrefix = [] \<longrightarrow>
            ServeProtected jw tm now hs c s
              = (c\<lparr>index := 64,
                   Written := Written c @ [\<lparr>Status = 401, Body = Some (ErrorResponse
                     ''unauthorized'' ''Token is required'' Map.empty)\<rparr>]\<rparr>, s))
       \<and> ''Authorization header is required''
            \<noteq> ''Authorization header must start with '' @ [CHR 0x27] @ ''Bearer '' @ [CHR 0x27]
       \<and> ''Authorization header is required'' \<noteq> ''Token is required''
       \<and> ''Authorization header must start with '' @ [CHR 0x27] @ ''Bearer '' @ [CHR 0x27]
            \<noteq> ''Token is required''"
proof (intro conjI impI)
  assume "GetHeader c AuthorizationHeader = []"
  then have "AuthMiddleware jw tm now hs (c\<lparr>index := 0\<rparr>) s
               = (unauthorized ''Authorization header is required'' (c\<lparr>index := 0\<rparr>), s)"
    by (simp add: AuthMiddleware_def GetHeader_def)
  then show "ServeProtected jw tm now hs c s
              = (c\<lparr>index := 64,
                   Written := Written c @ [\<lparr>Status = 401, Body = Some (ErrorResponse
                     ''unauthorized'' ''Authorization header is required'' Map.empty)\<rparr>]\<rparr>, s)"
    by (rule ServeProtected_rejected [OF assms])
next
  assume "GetHeader c AuthorizationHeader \<noteq> []
            \<and> \<not> HasPrefix (GetHeader c AuthorizationHeader) BearerPrefix"
  then have "AuthMiddleware jw tm now hs (c\<lparr>index := 0\<rparr>) s
               = (unauthorized (''Authorization header must start with '' @ [CHR 0x27] @ ''Bearer ''
                        @ [CHR 0x27]) (c\<lparr>index := 0\<rparr>), s)"
    by (simp add: AuthMiddleware_def GetHeader_def)
  then show "ServeProtected jw tm now hs c s
              = (c\<lparr>index := 64,
                   Written := Written c @ [\<lparr>Status = 401, Body = Some (ErrorResponse
                     ''unauthorized''
                     (''Authorization header must start with '' @ [CHR 0x27] @ ''Bearer ''
                        @ [CHR 0x27]) Map.empty)\<rparr>]\<rparr>, s)"
    by (rule ServeProtected_rejected [OF assms])
next
  assume a: "HasPrefix (GetHeader c AuthorizationHeader) BearerPrefix
            \<and> TrimPrefix (GetHeader c AuthorizationHeader) BearerPrefix = []"
  then have "GetHeader c AuthorizationHeader \<noteq> []"
    by (auto simp: HasPrefix_def BearerPrefix_def)
  with a have "AuthMiddleware jw tm now hs (c\<lparr>index := 0\<rparr>) s
               = (unauthorized ''Token is required'' (c\<lparr>index := 0\<rparr>), s)"
    by (simp add: AuthMiddleware_def GetHeader_def Let_def)
  then show "ServeProtected jw tm now hs c s
              = (c\<lparr>index := 64,
                   Written := Written c @ [\<lparr>Status = 401, Body = Some (ErrorResponse
                     ''unauthorized'' ''Token is required'' Map.empty)\<rparr>]\<rparr>, s)"
    by (rule ServeProtected_rejected [OF assms])
qed simp_all

text \<open>The three requests in front of a handler that would answer 200 and empty the todo
  table if it ran.\<close>

theorem missing_or_bad_bearer_is_rejected_witness:
  "ServeProtected toy_jwt (NewTokenManager ''k'' 24) 100 [spy_handler] (login_ctx []) example_db
     = ((login_ctx [])\<lparr>index := 64,
          Written := [\<lparr>Status = 401, Body = Some (ErrorResponse
            ''unauthorized'' ''Authorization header is required'' Map.empty)\<rparr>]\<rparr>, example_db)
 \<and> ServeProtected toy_jwt (NewTokenManager ''k'' 24) 100 [spy_handler]
       (header_ctx ''Basic h.new.sig'') example_db
     = ((header_ctx ''Basic h.new.sig'')\<lparr>index := 64,
          Written := [\<lparr>Status = 401, Body = Some (ErrorResponse
            ''unauthorized''
            (''Authorization header must start with '' @ [CHR 0x27] @ ''Bearer '' @ [CHR 0x27])
            Map.empty)\<rparr>]\<rparr>, example_db)
 \<and> ServeProtected toy_jwt (NewTokenManager ''k'' 24) 100 [spy_handler]
       (header_ctx ''Bearer '') example_db
     = ((header_ctx ''Bearer '')\<lparr>index := 64,
          Written := [\<lparr>Status = 401, Body = Some (ErrorResponse
            ''unauthorized'' ''Token is required'' Map.empty)\<rparr>]\<rparr>, example_db)"
  using missing_or_bad_bearer_is_rejected [of "[spy_handler]" "login_ctx []" toy_jwt
      "NewTokenManager ''k'' 24" 100 example_db]
    missing_or_bad_bearer_is_rejected [of "[spy_handler]" "header_ctx ''Basic h.new.sig''" toy_jwt
      "NewTokenManager ''k'' 24" 100 example_db]
    missing_or_bad_bearer_is_rejected [of "[spy_handler]" "header_ctx ''Bearer ''" toy_jwt
      "NewTokenManager ''k'' 24" 100 example_db]
  by (simp add: login_ctx_def header_ctx_def GetHeader_def AuthorizationHeader_def
      HasPrefix_def TrimPrefix_def BearerPrefix_def)

text \<open>For comparison, the same chain on a request with a valid token, where the handler
  runs with the identity in the context, and on one with an expired token.\<close>

lemma valid_token_reaches_handler:
  "ServeProtected toy_jwt (NewTokenManager ''k'' 24) 100 [spy_handler]
     (header_ctx ''Bearer h.new.sig'') example_db
   = ((header_ctx ''Bearer h.new.sig'')
        \<lparr>Keys := [UserIDKey \<mapsto> AnyUint 1, UserEmailKey \<mapsto> AnyString ''a@example.com''],
         index := 3,
         Written := [\<lparr>Status = 200,
                      Body = Some (ErrorResponse ''ok'' ''handler ran'' Map.empty)\<rparr>]\<rparr>,
      example_db\<lparr>todos := []\<rparr>)"
  by (simp add: ServeProtected_def AuthMiddleware_def Next_def ValidateToken_cases
      header_ctx_def spy_handler_def GetHeader_def AuthorizationHeader_def HasPrefix_def
      TrimPrefix_def BearerPrefix_def toy_jwt_def toy_claims_def NewTokenManager_def
      jwt_Verify_def Set_def JSON_def StatusOK_def Let_def)

lemma expired_token_rejected:
  "ServeProtected toy_jwt (NewTokenManager ''k'' 24) 100 [spy_handler]
     (header_ctx ''Bearer h.old.sig'') example_db
   = ((header_ctx ''Bearer h.old.sig'')
        \<lparr>index := 64,
         Written := [\<lparr>Status = 401,
                      Body = Some (ErrorResponse ''unauthorized'' ''Token has expired'' Map.empty)\<rparr>]\<rparr>,
      example_db)"
  by (simp add: ServeProtected_def AuthMiddleware_def Next_def ValidateToken_cases
      header_ctx_def spy_handler_def GetHeader_def AuthorizationHeader_def HasPrefix_def
      TrimPrefix_def BearerPrefix_def toy_jwt_def toy_claims_def NewTokenManager_def
      jwt_Verify_def Set_def JSON_def StatusUnauthorized_def Let_def unauthorized_def Abort_def
      abortIndex_def)

section \<open>Properties of registration and login\<close>

text \<open>
  C2. A login with a registered email and a password that does not verify, and a login with
  an unregistered email, both make the service return \<open>ErrInvalidCredentials\<close>, whose
  message is "invalid email or password". The handler looks for the messages
  "invalid credentials" and "user not found", finds neither, and answers both logins with
  500 "login_failed": the same answer for both, but not the 401 "invalid_credentials" that
  the handler's own 401 branch and the tests provide for.
\<close>

theorem login_failures_answer_500:
  assumes "db_fault db = None"
    and "distinct (map User_Email (users db))"
    and "u \<in> set (users db)"
    and "VerifyPassword bc NewHasher (User_Password u) q \<noteq> None"
    and "e' \<notin> User_Email ` set (users db)"
    and "Auth_Login (services h) = authService_Login bc jw (NewAuthService NewUserRepository tm) now"
    and "ShouldBindJSON h c = Inr \<lparr>Login_Email = User_Email u, Login_Password = q\<rparr>"
    and "ShouldBindJSON h c' = Inr \<lparr>Login_Email = e', Login_Password = q\<rparr>"
    and "\<And>r. validator_Struct h r = []"
  shows "authService_Login bc jw (NewAuthService NewUserRepository tm) now
           \<lparr>Login_Email = User_Email u, Login_Password = q\<rparr> db = (Inl ErrInvalidCredentials, db)
       \<and> authService_Login bc jw (NewAuthService NewUserRepository tm) now
           \<lparr>Login_Email = e', Login_Password = q\<rparr> db = (Inl ErrInvalidCredentials, db)
       \<and> Handler_Login h c db
           = (JSON StatusInternalServerError
                (ErrorResponse ''login_failed'' ''Failed to authenticate user'' Map.empty) c, db)
       \<and> Handler_Login h c' db
           = (JSON StatusInternalServerError
                (ErrorResponse ''login_failed'' ''Failed to authenticate user'' Map.empty) c', db)
       \<and> StatusInternalServerError \<noteq> StatusUnauthorized"
proof -
  let ?svc = "NewAuthService NewUserRepository tm"
  have a: "authService_Login bc jw ?svc now
             \<lparr>Login_Email = User_Email u, Login_Password = q\<rparr> db = (Inl ErrInvalidCredentials, db)"
    using assms(1,4) find_distinct_email [OF assms(2,3)]
    by (auto simp: authService_Login_def NewAuthService_def NewUserRepository_def
        userRepository_GetByEmail_def)
  have b: "authService_Login bc jw ?svc now
             \<lparr>Login_Email = e', Login_Password = q\<rparr> db = (Inl ErrInvalidCredentials, db)"
    using assms(1) find_unregistered_email [OF assms(5)]
    by (simp add: authService_Login_def NewAuthService_def NewUserRepository_def
        userRepository_GetByEmail_def gorm_ErrRecordNotFound_def)
  have c: "Handler_Login h c db
           = (JSON StatusInternalServerError
                (ErrorResponse ''login_failed'' ''Failed to authenticate user'' Map.empty) c, db)"
    using a assms(6,7,9) by (intro Handler_Login_invalid_credentials) simp_all
  have d: "Handler_Login h c' db
           = (JSON StatusInternalServerError
                (ErrorResponse ''login_failed'' ''Failed to authenticate user'' Map.empty) c', db)"
    using b assms(6,8,9) by (intro Handler_Login_invalid_credentials) simp_all
  have e: "StatusInternalServerError \<noteq> StatusUnauthorized"
    by (simp add: StatusInternalServerError_def StatusUnauthorized_def)
  from a b c d e show ?thesis by blast
qed

text \<open>User \<open>a@example.com\<close> with a wrong password, and the unregistered
  \<open>nobody@example.com\<close>.\<close>

theorem login_failures_answer_500_witness:
  "Handler_Login (example_handler NewTodoRepository)
     (login_ctx ''a@example.com wrongpassword'') example_db
   = (JSON StatusInternalServerError
        (ErrorResponse ''login_failed'' ''Failed to authenticate user'' Map.empty)
        (login_ctx ''a@example.com wrongpassword''), example_db)
 \<and> Handler_Login (example_handler NewTodoRepository)
     (login_ctx ''nobody@example.com wrongpassword'') example_db
   = (JSON StatusInternalServerError
        (ErrorResponse ''login_failed'' ''Failed to authenticate user'' Map.empty)
        (login_ctx ''nobody@example.com wrongpassword''), example_db)"
  using login_failures_answer_500 [of example_db user_A toy_bcrypt "''wrongpassword''"
      "''nobody@example.com''" "example_handler NewTodoRepository"
      toy_jwt "NewTokenManager ''k'' 24" 100 "login_ctx ''a@example.com wrongpassword''"
      "login_ctx ''nobody@example.com wrongpassword''"]
  by (simp add: example_defs VerifyPassword_def toy_bcrypt_def MinPasswordLength_def
      MaxPasswordLength_def)

text \<open>
  C9. \<open>Register\<close> first looks the email up. When the email is registered, when the
  password fails the strength validation, and when hashing fails, it returns the error with
  the store exactly as the lookup left it: \<open>Create\<close> is not reached. When the store does
  differ from the one the lookup left, the password was validated and hashed and the
  difference is that of the one \<open>Create\<close> call with the hash. Over the GORM repository
  every error leaves the store as it was, and a success adds exactly one row, holding the
  hash of the validated password.
\<close>

theorem register_persists_only_on_success:
  assumes "user_GetByEmail ur (Register_Email req) s = (r, s1)"
  shows "(\<forall>u. r = Inr u \<longrightarrow>
            authService_Register bc jw (NewAuthService ur tm) now rnd req s
              = (Inl ErrEmailAlreadyExists, s1))
       \<and> (\<forall>err e. r = Inl err \<and> errors_Is err gorm_ErrRecordNotFound
              \<and> ValidatePasswordStrength (Register_Password req) = Some e \<longrightarrow>
            authService_Register bc jw (NewAuthService ur tm) now rnd req s
              = (Inl (Wrap ''password validation failed'' e), s1))
       \<and> (\<forall>err e. r = Inl err \<and> errors_Is err gorm_ErrRecordNotFound
              \<and> ValidatePasswordStrength (Register_Password req) = None
              \<and> HashPassword bc NewHasher (Register_Password req) rnd = Inl e \<longrightarrow>
            authService_Register bc jw (NewAuthService ur tm) now rnd req s
              = (Inl (Wrap ''failed to hash password'' e), s1))
       \<and> (snd (authService_Register bc jw (NewAuthService ur tm) now rnd req s) \<noteq> s1 \<longrightarrow>
            ValidatePasswordStrength (Register_Password req) = None
            \<and> (\<exists>hp. HashPassword bc NewHasher (Register_Password req) rnd = Inr hp
                  \<and> snd (authService_Register bc jw (NewAuthService ur tm) now rnd req s)
                      = snd (user_Create ur \<lparr>User_ID = 0, User_Email = Register_Email req,
                                              User_Password = hp,
                                              User_CreatedAt = 0, User_UpdatedAt = 0\<rparr> s1)))
       \<and> (\<forall>e db db'.
            authService_Register bc jw (NewAuthService NewUserRepository tm) now rnd req db
              = (Inl e, db') \<longrightarrow> db' = db)
       \<and> (\<forall>resp db db'.
            authService_Register bc jw (NewAuthService NewUserRepository tm) now rnd req db
              = (Inr resp, db') \<longrightarrow>
            ValidatePasswordStrength (Register_Password req) = None
            \<and> (\<exists>hp. HashPassword bc NewHasher (Register_Password req) rnd = Inr hp
                  \<and> users db' = users db @ [\<lparr>User_ID = user_seq db + 1,
                                                User_Email = Register_Email req,
                                                User_Password = hp,
                                                User_CreatedAt = clock db,
                                                User_UpdatedAt = clock db\<rparr>]))"
proof (intro conjI allI impI)
  fix u assume "r = Inr u"
  then show "authService_Register bc jw (NewAuthService ur tm) now rnd req s
              = (Inl ErrEmailAlreadyExists, s1)"
    using assms by (simp add: Register_email_exists)
next
  fix err e
  assume "r = Inl err \<and> errors_Is err gorm_ErrRecordNotFound
              \<and> ValidatePasswordStrength (Register_Password req) = Some e"
  then show "authService_Register bc jw (NewAuthService ur tm) now rnd req s
              = (Inl (Wrap ''password validation failed'' e), s1)"
    using assms by (simp add: Register_validation_fails)
next
  fix err e
  assume "r = Inl err \<and> errors_Is err gorm_ErrRecordNotFound
              \<and> ValidatePasswordStrength (Register_Password req) = None
              \<and> HashPassword bc NewHasher (Register_Password req) rnd = Inl e"
  then show "authService_Register bc jw (NewAuthService ur tm) now rnd req s
              = (Inl (Wrap ''failed to hash password'' e), s1)"
    using assms by (simp add: Register_hashing_fails)
next
  assume ch: "snd (authService_Register bc jw (NewAuthService ur tm) now rnd req s) \<noteq> s1"
  show "ValidatePasswordStrength (Register_Password req) = None"
    using Register_store_changed [OF assms ch] by blast
  show "\<exists>hp. HashPassword bc NewHasher (Register_Password req) rnd = Inr hp
                  \<and> snd (authService_Register bc jw (NewAuthService ur tm) now rnd req s)
                      = snd (user_Create ur \<lparr>User_ID = 0, User_Email = Register_Email req,
                                              User_Password = hp,
                                              User_CreatedAt = 0, User_UpdatedAt = 0\<rparr> s1)"
    using Register_store_changed [OF assms ch] by blast
next
  fix e db db'
  assume "authService_Register bc jw (NewAuthService NewUserRepository tm) now rnd req db
              = (Inl e, db')"
  then show "db' = db"
    using Register_gorm [of bc jw tm now rnd req db] by auto
next
  fix resp db db'
  assume ok: "authService_Register bc jw (NewAuthService NewUserRepository tm) now rnd req db
              = (Inr resp, db')"
  show "ValidatePasswordStrength (Register_Password req) = None"
    using ok Register_gorm [of bc jw tm now rnd req db] by auto
  show "\<exists>hp. HashPassword bc NewHasher (Register_Password req) rnd = Inr hp
                  \<and> users db' = users db @ [\<lparr>User_ID = user_seq db + 1,
                                                User_Email = Register_Email req,
                                                User_Password = hp,
                                                User_CreatedAt = clock db,
                                                User_UpdatedAt = clock db\<rparr>]"
    using ok Register_gorm [of bc jw tm now rnd req db] by auto
qed

text \<open>An email that is registered, a password of five bytes, and a password of 73 bytes,
  which the toy bcrypt refuses to hash as the library does.\<close>

theorem register_persists_only_on_success_witness:
  "authService_Register toy_bcrypt toy_jwt
     (NewAuthService NewUserRepository (NewTokenManager ''k'' 24)) 100 ''salt''
     \<lparr>Register_Email = ''a@example.com'', Register_Password = ''password123''\<rparr> example_db
   = (Inl ErrEmailAlreadyExists, example_db)
 \<and> authService_Register toy_bcrypt toy_jwt
     (NewAuthService NewUserRepository (NewTokenManager ''k'' 24)) 100 ''salt''
     \<lparr>Register_Email = ''c@example.com'', Register_Password = ''short''\<rparr> example_db
   = (Inl (Wrap ''password validation failed'' ErrInvalidPassword), example_db)
 \<and> authService_Register toy_bcrypt toy_jwt
     (NewAuthService NewUserRepository (NewTokenManager ''k'' 24)) 100 ''salt''
     \<lparr>Register_Email = ''c@example.com'', Register_Password = replicate 73 CHR ''a''\<rparr> example_db
   = (Inl (Wrap ''failed to hash password'' ErrHashingFailed), example_db)"
  using register_persists_only_on_success [of NewUserRepository
      "\<lparr>Register_Email = ''a@example.com'', Register_Password = ''password123''\<rparr>"
      example_db "Inr user_A" example_db toy_bcrypt toy_jwt "NewTokenManager ''k'' 24" 100 "''salt''"]
    register_persists_only_on_success [of NewUserRepository
      "\<lparr>Register_Email = ''c@example.com'', Register_Password = ''short''\<rparr>"
      example_db "Inl gorm_ErrRecordNotFound" example_db toy_bcrypt toy_jwt
      "NewTokenManager ''k'' 24" 100 "''salt''"]
    register_persists_only_on_success [of NewUserRepository
      "\<lparr>Register_Email = ''c@example.com'', Register_Password = replicate 73 CHR ''a''\<rparr>"
      example_db "Inl gorm_ErrRecordNotFound" example_db toy_bcrypt toy_jwt
      "NewTokenManager ''k'' 24" 100 "''salt''"]
  by (simp add: example_defs userRepository_GetByEmail_def gorm_ErrRecordNotFound_def
      ValidatePasswordStrength_def HashPassword_def toy_bcrypt_def
      MinPasswordLength_def MaxPasswordLength_def)

section \<open>Properties of token validation\<close>

text \<open>
  C3. \<open>ValidateToken\<close> fails with \<open>ErrExpiredToken\<close> exactly when the token string
  decodes, names an HMAC method, carries the HMAC of its signing input under the manager's
  secret, and has an expires-at that is not after the time of the call. Every other failure
  is \<open>ErrInvalidToken\<close>: a string that does not decode (malformed structure, claims that
  do not parse), a method that is not HMAC, a signature made with another secret. The
  errors are distinct (and \<open>ErrTokenClaims\<close>, which is never returned, is distinct from
  \<open>ErrExpiredToken\<close> too).
\<close>

theorem expired_only_with_valid_signature:
  "(ValidateToken lib tm now t = Inl ErrExpiredToken \<longleftrightarrow>
      (\<exists>tok n sig e. ParseUnverified lib t = Inr tok \<and> Method tok = HMAC n
         \<and> DecodeSegment lib (RawSignature tok) = Some sig
         \<and> sig = hmac lib n (secretKey tm) (SigningInput tok)
         \<and> ExpiresAt (Token_Claims tok) = Some e \<and> e \<le> now))
 \<and> (\<forall>err. ValidateToken lib tm now t = Inl err \<and> err \<noteq> ErrExpiredToken
        \<longrightarrow> err = ErrInvalidToken)
 \<and> (\<forall>f. ParseUnverified lib t = Inl f \<longrightarrow> ValidateToken lib tm now t = Inl ErrInvalidToken)
 \<and> (\<forall>tok. ParseUnverified lib t = Inr tok \<and> \<not> SigningMethodHMAC (Method tok)
        \<longrightarrow> ValidateToken lib tm now t = Inl ErrInvalidToken)
 \<and> (\<forall>tok n sig. ParseUnverified lib t = Inr tok \<and> Method tok = HMAC n
        \<and> DecodeSegment lib (RawSignature tok) = Some sig
        \<and> sig \<noteq> hmac lib n (secretKey tm) (SigningInput tok)
        \<longrightarrow> ValidateToken lib tm now t = Inl ErrInvalidToken)
 \<and> ErrInvalidToken \<noteq> ErrExpiredToken \<and> ErrTokenClaims \<noteq> ErrExpiredToken"
proof (intro conjI allI impI)
  show "ValidateToken lib tm now t = Inl ErrExpiredToken \<longleftrightarrow>
      (\<exists>tok n sig e. ParseUnverified lib t = Inr tok \<and> Method tok = HMAC n
         \<and> DecodeSegment lib (RawSignature tok) = Some sig
         \<and> sig = hmac lib n (secretKey tm) (SigningInput tok)
         \<and> ExpiresAt (Token_Claims tok) = Some e \<and> e \<le> now)"
    by (auto simp: ValidateToken_cases jwt_Verify_def ErrInvalidToken_def ErrExpiredToken_def
        split: sum.splits option.splits if_splits SigningMethod.splits)
next
  fix err assume "ValidateToken lib tm now t = Inl err \<and> err \<noteq> ErrExpiredToken"
  then show "err = ErrInvalidToken"
    by (auto simp: ValidateToken_cases split: sum.splits option.splits if_splits)
next
  fix f assume "ParseUnverified lib t = Inl f"
  then show "ValidateToken lib tm now t = Inl ErrInvalidToken"
    by (simp add: ValidateToken_cases)
next
  fix tok assume "ParseUnverified lib t = Inr tok \<and> \<not> SigningMethodHMAC (Method tok)"
  then show "ValidateToken lib tm now t = Inl ErrInvalidToken"
    by (simp add: ValidateToken_cases)
next
  fix tok n sig
  assume "ParseUnverified lib t = Inr tok \<and> Method tok = HMAC n
        \<and> DecodeSegment lib (RawSignature tok) = Some sig
        \<and> sig \<noteq> hmac lib n (secretKey tm) (SigningInput tok)"
  then show "ValidateToken lib tm now t = Inl ErrInvalidToken"
    by (simp add: ValidateToken_cases jwt_Verify_def)
qed (simp_all add: ErrInvalidToken_def ErrExpiredToken_def ErrTokenClaims_def)

text \<open>An expired token signed with \<open>''k''\<close>, validated by a manager with the secret
  \<open>''k''\<close> and by one with another secret; an expired token with method \<open>none\<close>; a
  string that is no token.\<close>

theorem expired_only_with_valid_signature_witness:
  "ValidateToken toy_jwt (NewTokenManager ''k'' 24) 100 ''h.old.sig'' = Inl ErrExpiredToken
 \<and> ValidateToken toy_jwt (NewTokenManager ''other'' 24) 100 ''h.old.sig'' = Inl ErrInvalidToken
 \<and> ValidateToken toy_jwt (NewTokenManager ''k'' 24) 100 ''n.new.'' = Inl ErrInvalidToken
 \<and> ValidateToken toy_jwt (NewTokenManager ''k'' 24) 100 ''garbage'' = Inl ErrInvalidToken"
  using expired_only_with_valid_signature [of toy_jwt "NewTokenManager ''k'' 24" 100 "''h.old.sig''"]
    expired_only_with_valid_signature [of toy_jwt "NewTokenManager ''other'' 24" 100 "''h.old.sig''"]
    expired_only_with_valid_signature [of toy_jwt "NewTokenManager ''k'' 24" 100 "''n.new.''"]
    expired_only_with_valid_signature [of toy_jwt "NewTokenManager ''k'' 24" 100 "''garbage''"]
  by (simp add: toy_jwt_def NewTokenManager_def toy_claims_def)

end
